theory Spec2Isabelle
  imports Complex_Main "HOL-Library.Sublist"
begin

section \<open>JavaScript string and array primitives used by the dashboard\<close>

text \<open>
  A string is the list of the bytes of its UTF-8 text, so a character of the ASCII range
  is one \<open>char\<close> and any other character is two to four of them. The library functions
  the source calls (\<^verbatim>\<open>toLowerCase\<close>, \<^verbatim>\<open>includes\<close>, \<^verbatim>\<open>trim\<close>, \<^verbatim>\<open>join\<close>, \<^verbatim>\<open>split\<close>) are
  written out as executable functions. \<open>toLowerCase\<close> is the lower-casing of the
  Unicode standard, defined in the next section; \<open>trim\<close> strips the white space of the
  ASCII range only.
\<close>

fun startsWith :: "string \<Rightarrow> string \<Rightarrow> bool" where
  "startsWith s [] = True"
| "startsWith [] (q # qs) = False"
| "startsWith (c # cs) (q # qs) = (c = q \<and> startsWith cs qs)"

text \<open>\<^verbatim>\<open>s.includes(q)\<close>: does \<open>q\<close> occur in \<open>s\<close> at some position?\<close>

fun includes_str :: "string \<Rightarrow> string \<Rightarrow> bool" where
  "includes_str [] q = (q = [])"
| "includes_str (c # cs) q = (startsWith (c # cs) q \<or> includes_str cs q)"

text \<open>\<^verbatim>\<open>xs.join(sep)\<close> on an array of strings.\<close>

fun join :: "string \<Rightarrow> string list \<Rightarrow> string" where
  "join sep [] = []"
| "join sep [x] = x"
| "join sep (x # y # ys) = x @ sep @ join sep (y # ys)"

text \<open>\<^verbatim>\<open>s.split(c)\<close> for a one-character separator: always at least one piece.\<close>

fun split :: "char \<Rightarrow> string \<Rightarrow> string list" where
  "split sep [] = [[]]"
| "split sep (c # cs) =
     (if c = sep then [] # split sep cs
      else (case split sep cs of
              [] \<Rightarrow> [[c]]
            | p # ps \<Rightarrow> (c # p) # ps))"

definition isWhiteSpace :: "char \<Rightarrow> bool" where
  "isWhiteSpace c = (c \<in> set [CHR '' '', CHR 0x09, CHR 0x0A, CHR 0x0B, CHR 0x0C, CHR 0x0D])"

definition trim :: "string \<Rightarrow> string" where
  "trim s = rev (dropWhile isWhiteSpace (rev (dropWhile isWhiteSpace s)))"

text \<open>
  \<^verbatim>\<open>String(n)\<close> for the numbers of the static data, which are integers: the decimal
  digits, with a minus sign in front of a negative number.
\<close>

definition digit_char :: "nat \<Rightarrow> char" where
  "digit_char d = ''0123456789'' ! d"

fun nat_digits :: "nat \<Rightarrow> string" where
  "nat_digits n =
     (if n < 10 then [digit_char n] else nat_digits (n div 10) @ [digit_char (n mod 10)])"

declare nat_digits.simps [simp del]

definition number_toString :: "int \<Rightarrow> string" where
  "number_toString n = (if n < 0 then ''-'' @ nat_digits (nat (- n)) else nat_digits (nat n))"

section \<open>Lower-casing (\<^verbatim>\<open>String.prototype.toLowerCase\<close>)\<close>

text \<open>
  \<^verbatim>\<open>toLowerCase\<close> is not part of the source: it is the locale-independent lower-casing of
  the Unicode standard, which the language prescribes. Its data (version 14.0 of the
  character database) are three tables over code points. \<open>lowercase_ranges\<close> lists, as
  \<open>(first, last, stride, delta)\<close>, the code points with a lower-case form that is one
  other code point: every \<open>stride\<close>-th code point from \<open>first\<close> to \<open>last\<close> is mapped
  \<open>delta\<close> further. \<open>case_ignorable_ranges\<close> lists the case-ignorable code points, and
  \<open>cased_ranges\<close> the cased code points that are not case-ignorable.
\<close>

definition lowercase_ranges :: "(nat \<times> nat \<times> nat \<times> int) list" where
  "lowercase_ranges =
   [(0x41, 0x5A, 1, 32), (0xC0, 0xD6, 1, 32), (0xD8, 0xDE, 1, 32), (0x100, 0x12E, 2, 1),
    (0x132, 0x136, 2, 1), (0x139, 0x147, 2, 1), (0x14A, 0x176, 2, 1), (0x178, 0x178, 1, - 121),
    (0x179, 0x17D, 2, 1), (0x181, 0x181, 1, 210), (0x182, 0x184, 2, 1), (0x186, 0x186, 1, 206),
    (0x187, 0x187, 1, 1), (0x189, 0x18A, 1, 205), (0x18B, 0x18B, 1, 1), (0x18E, 0x18E, 1, 79),
    (0x18F, 0x18F, 1, 202), (0x190, 0x190, 1, 203), (0x191, 0x191, 1, 1),
    (0x193, 0x193, 1, 205), (0x194, 0x194, 1, 207), (0x196, 0x196, 1, 211),
    (0x197, 0x197, 1, 209), (0x198, 0x198, 1, 1), (0x19C, 0x19C, 1, 211),
    (0x19D, 0x19D, 1, 213), (0x19F, 0x19F, 1, 214), (0x1A0, 0x1A4, 2, 1),
    (0x1A6, 0x1A6, 1, 218), (0x1A7, 0x1A7, 1, 1), (0x1A9, 0x1A9, 1, 218), (0x1AC, 0x1AC, 1, 1),
    (0x1AE, 0x1AE, 1, 218), (0x1AF, 0x1AF, 1, 1), (0x1B1, 0x1B2, 1, 217), (0x1B3, 0x1B5, 2, 1),
    (0x1B7, 0x1B7, 1, 219), (0x1B8, 0x1B8, 1, 1), (0x1BC, 0x1BC, 1, 1), (0x1C4, 0x1C4, 1, 2),
    (0x1C5, 0x1C5, 1, 1), (0x1C7, 0x1C7, 1, 2), (0x1C8, 0x1C8, 1, 1), (0x1CA, 0x1CA, 1, 2),
    (0x1CB, 0x1DB, 2, 1), (0x1DE, 0x1EE, 2, 1), (0x1F1, 0x1F1, 1, 2), (0x1F2, 0x1F4, 2, 1),
    (0x1F6, 0x1F6, 1, - 97), (0x1F7, 0x1F7, 1, - 56), (0x1F8, 0x21E, 2, 1),
    (0x220, 0x220, 1, - 130), (0x222, 0x232, 2, 1), (0x23A, 0x23A, 1, 10795),
    (0x23B, 0x23B, 1, 1), (0x23D, 0x23D, 1, - 163), (0x23E, 0x23E, 1, 10792),
    (0x241, 0x241, 1, 1), (0x243, 0x243, 1, - 195), (0x244, 0x244, 1, 69),
    (0x245, 0x245, 1, 71), (0x246, 0x24E, 2, 1), (0x370, 0x372, 2, 1), (0x376, 0x376, 1, 1),
    (0x37F, 0x37F, 1, 116), (0x386, 0x386, 1, 38), (0x388, 0x38A, 1, 37),
    (0x38C, 0x38C, 1, 64), (0x38E, 0x38F, 1, 63), (0x391, 0x3A1, 1, 32), (0x3A3, 0x3AB, 1, 32),
    (0x3CF, 0x3CF, 1, 8), (0x3D8, 0x3EE, 2, 1), (0x3F4, 0x3F4, 1, - 60), (0x3F7, 0x3F7, 1, 1),
    (0x3F9, 0x3F9, 1, - 7), (0x3FA, 0x3FA, 1, 1), (0x3FD, 0x3FF, 1, - 130),
    (0x400, 0x40F, 1, 80), (0x410, 0x42F, 1, 32), (0x460, 0x480, 2, 1), (0x48A, 0x4BE, 2, 1),
    (0x4C0, 0x4C0, 1, 15), (0x4C1, 0x4CD, 2, 1), (0x4D0, 0x52E, 2, 1), (0x531, 0x556, 1, 48),
    (0x10A0, 0x10C5, 1, 7264), (0x10C7, 0x10C7, 1, 7264), (0x10CD, 0x10CD, 1, 7264),
    (0x13A0, 0x13EF, 1, 38864), (0x13F0, 0x13F5, 1, 8), (0x1C90, 0x1CBA, 1, - 3008),
    (0x1CBD, 0x1CBF, 1, - 3008), (0x1E00, 0x1E94, 2, 1), (0x1E9E, 0x1E9E, 1, - 7615),
    (0x1EA0, 0x1EFE, 2, 1), (0x1F08, 0x1F0F, 1, - 8), (0x1F18, 0x1F1D, 1, - 8),
    (0x1F28, 0x1F2F, 1, - 8), (0x1F38, 0x1F3F, 1, - 8), (0x1F48, 0x1F4D, 1, - 8),
    (0x1F59, 0x1F5F, 2, - 8), (0x1F68, 0x1F6F, 1, - 8), (0x1F88, 0x1F8F, 1, - 8),
    (0x1F98, 0x1F9F, 1, - 8), (0x1FA8, 0x1FAF, 1, - 8), (0x1FB8, 0x1FB9, 1, - 8),
    (0x1FBA, 0x1FBB, 1, - 74), (0x1FBC, 0x1FBC, 1, - 9), (0x1FC8, 0x1FCB, 1, - 86),
    (0x1FCC, 0x1FCC, 1, - 9), (0x1FD8, 0x1FD9, 1, - 8), (0x1FDA, 0x1FDB, 1, - 100),
    (0x1FE8, 0x1FE9, 1, - 8), (0x1FEA, 0x1FEB, 1, - 112), (0x1FEC, 0x1FEC, 1, - 7),
    (0x1FF8, 0x1FF9, 1, - 128), (0x1FFA, 0x1FFB, 1, - 126), (0x1FFC, 0x1FFC, 1, - 9),
    (0x2126, 0x2126, 1, - 7517), (0x212A, 0x212A, 1, - 8383), (0x212B, 0x212B, 1, - 8262),
    (0x2132, 0x2132, 1, 28), (0x2160, 0x216F, 1, 16), (0x2183, 0x2183, 1, 1),
    (0x24B6, 0x24CF, 1, 26), (0x2C00, 0x2C2F, 1, 48), (0x2C60, 0x2C60, 1, 1),
    (0x2C62, 0x2C62, 1, - 10743), (0x2C63, 0x2C63, 1, - 3814), (0x2C64, 0x2C64, 1, - 10727),
    (0x2C67, 0x2C6B, 2, 1), (0x2C6D, 0x2C6D, 1, - 10780), (0x2C6E, 0x2C6E, 1, - 10749),
    (0x2C6F, 0x2C6F, 1, - 10783), (0x2C70, 0x2C70, 1, - 10782), (0x2C72, 0x2C72, 1, 1),
    (0x2C75, 0x2C75, 1, 1), (0x2C7E, 0x2C7F, 1, - 10815), (0x2C80, 0x2CE2, 2, 1),
    (0x2CEB, 0x2CED, 2, 1), (0x2CF2, 0x2CF2, 1, 1), (0xA640, 0xA66C, 2, 1),
    (0xA680, 0xA69A, 2, 1), (0xA722, 0xA72E, 2, 1), (0xA732, 0xA76E, 2, 1),
    (0xA779, 0xA77B, 2, 1), (0xA77D, 0xA77D, 1, - 35332), (0xA77E, 0xA786, 2, 1),
    (0xA78B, 0xA78B, 1, 1), (0xA78D, 0xA78D, 1, - 42280), (0xA790, 0xA792, 2, 1),
    (0xA796, 0xA7A8, 2, 1), (0xA7AA, 0xA7AA, 1, - 42308), (0xA7AB, 0xA7AB, 1, - 42319),
    (0xA7AC, 0xA7AC, 1, - 42315), (0xA7AD, 0xA7AD, 1, - 42305), (0xA7AE, 0xA7AE, 1, - 42308),
    (0xA7B0, 0xA7B0, 1, - 42258), (0xA7B1, 0xA7B1, 1, - 42282), (0xA7B2, 0xA7B2, 1, - 42261),
    (0xA7B3, 0xA7B3, 1, 928), (0xA7B4, 0xA7C2, 2, 1), (0xA7C4, 0xA7C4, 1, - 48),
    (0xA7C5, 0xA7C5, 1, - 42307), (0xA7C6, 0xA7C6, 1, - 35384), (0xA7C7, 0xA7C9, 2, 1),
    (0xA7D0, 0xA7D0, 1, 1), (0xA7D6, 0xA7D8, 2, 1), (0xA7F5, 0xA7F5, 1, 1),
    (0xFF21, 0xFF3A, 1, 32), (0x10400, 0x10427, 1, 40), (0x104B0, 0x104D3, 1, 40),
    (0x10570, 0x1057A, 1, 39), (0x1057C, 0x1058A, 1, 39), (0x1058C, 0x10592, 1, 39),
    (0x10594, 0x10595, 1, 39), (0x10C80, 0x10CB2, 1, 64), (0x118A0, 0x118BF, 1, 32),
    (0x16E40, 0x16E5F, 1, 32), (0x1E900, 0x1E921, 1, 34)]"

definition case_ignorable_ranges :: "(nat \<times> nat) list" where
  "case_ignorable_ranges =
   [(0x27, 0x27), (0x2E, 0x2E), (0x3A, 0x3A), (0x5E, 0x5E), (0x60, 0x60), (0xA8, 0xA8),
    (0xAD, 0xAD), (0xAF, 0xAF), (0xB4, 0xB4), (0xB7, 0xB8), (0x2B0, 0x36F), (0x374, 0x375),
    (0x37A, 0x37A), (0x384, 0x385), (0x387, 0x387), (0x483, 0x489), (0x559, 0x559),
    (0x55F, 0x55F), (0x591, 0x5BD), (0x5BF, 0x5BF), (0x5C1, 0x5C2), (0x5C4, 0x5C5),
    (0x5C7, 0x5C7), (0x5F4, 0x5F4), (0x600, 0x605), (0x610, 0x61A), (0x61C, 0x61C),
    (0x640, 0x640), (0x64B, 0x65F), (0x670, 0x670), (0x6D6, 0x6DD), (0x6DF, 0x6E8),
    (0x6EA, 0x6ED), (0x70F, 0x70F), (0x711, 0x711), (0x730, 0x74A), (0x7A6, 0x7B0),
    (0x7EB, 0x7F5), (0x7FA, 0x7FA), (0x7FD, 0x7FD), (0x816, 0x82D), (0x859, 0x85B),
    (0x888, 0x888), (0x890, 0x891), (0x898, 0x89F), (0x8C9, 0x902), (0x93A, 0x93A),
    (0x93C, 0x93C), (0x941, 0x948), (0x94D, 0x94D), (0x951, 0x957), (0x962, 0x963),
    (0x971, 0x971), (0x981, 0x981), (0x9BC, 0x9BC), (0x9C1, 0x9C4), (0x9CD, 0x9CD),
    (0x9E2, 0x9E3), (0x9FE, 0x9FE), (0xA01, 0xA02), (0xA3C, 0xA3C), (0xA41, 0xA42),
    (0xA47, 0xA48), (0xA4B, 0xA4D), (0xA51, 0xA51), (0xA70, 0xA71), (0xA75, 0xA75),
    (0xA81, 0xA82), (0xABC, 0xABC), (0xAC1, 0xAC5), (0xAC7, 0xAC8), (0xACD, 0xACD),
    (0xAE2, 0xAE3), (0xAFA, 0xAFF), (0xB01, 0xB01), (0xB3C, 0xB3C), (0xB3F, 0xB3F),
    (0xB41, 0xB44), (0xB4D, 0xB4D), (0xB55, 0xB56), (0xB62, 0xB63), (0xB82, 0xB82),
    (0xBC0, 0xBC0), (0xBCD, 0xBCD), (0xC00, 0xC00), (0xC04, 0xC04), (0xC3C, 0xC3C),
    (0xC3E, 0xC40), (0xC46, 0xC48), (0xC4A, 0xC4D), (0xC55, 0xC56), (0xC62, 0xC63),
    (0xC81, 0xC81), (0xCBC, 0xCBC), (0xCBF, 0xCBF), (0xCC6, 0xCC6), (0xCCC, 0xCCD),
    (0xCE2, 0xCE3), (0xD00, 0xD01), (0xD3B, 0xD3C), (0xD41, 0xD44), (0xD4D, 0xD4D),
    (0xD62, 0xD63), (0xD81, 0xD81), (0xDCA, 0xDCA), (0xDD2, 0xDD4), (0xDD6, 0xDD6),
    (0xE31, 0xE31), (0xE34, 0xE3A), (0xE46, 0xE4E), (0xEB1, 0xEB1), (0xEB4, 0xEBC),
    (0xEC6, 0xEC6), (0xEC8, 0xECD), (0xF18, 0xF19), (0xF35, 0xF35), (0xF37, 0xF37),
    (0xF39, 0xF39), (0xF71, 0xF7E), (0xF80, 0xF84), (0xF86, 0xF87), (0xF8D, 0xF97),
    (0xF99, 0xFBC), (0xFC6, 0xFC6), (0x102D, 0x1030), (0x1032, 0x1037), (0x1039, 0x103A),
    (0x103D, 0x103E), (0x1058, 0x1059), (0x105E, 0x1060), (0x1071, 0x1074), (0x1082, 0x1082),
    (0x1085, 0x1086), (0x108D, 0x108D), (0x109D, 0x109D), (0x10FC, 0x10FC), (0x135D, 0x135F),
    (0x1712, 0x1714), (0x1732, 0x1733), (0x1752, 0x1753), (0x1772, 0x1773), (0x17B4, 0x17B5),
    (0x17B7, 0x17BD), (0x17C6, 0x17C6), (0x17C9, 0x17D3), (0x17D7, 0x17D7), (0x17DD, 0x17DD),
    (0x180B, 0x180F), (0x1843, 0x1843), (0x1885, 0x1886), (0x18A9, 0x18A9), (0x1920, 0x1922),
    (0x1927, 0x1928), (0x1932, 0x1932), (0x1939, 0x193B), (0x1A17, 0x1A18), (0x1A1B, 0x1A1B),
    (0x1A56, 0x1A56), (0x1A58, 0x1A5E), (0x1A60, 0x1A60), (0x1A62, 0x1A62), (0x1A65, 0x1A6C),
    (0x1A73, 0x1A7C), (0x1A7F, 0x1A7F), (0x1AA7, 0x1AA7), (0x1AB0, 0x1ACE), (0x1B00, 0x1B03),
    (0x1B34, 0x1B34), (0x1B36, 0x1B3A), (0x1B3C, 0x1B3C), (0x1B42, 0x1B42), (0x1B6B, 0x1B73),
    (0x1B80, 0x1B81), (0x1BA2, 0x1BA5), (0x1BA8, 0x1BA9), (0x1BAB, 0x1BAD), (0x1BE6, 0x1BE6),
    (0x1BE8, 0x1BE9), (0x1BED, 0x1BED), (0x1BEF, 0x1BF1), (0x1C2C, 0x1C33), (0x1C36, 0x1C37),
    (0x1C78, 0x1C7D), (0x1CD0, 0x1CD2), (0x1CD4, 0x1CE0), (0x1CE2, 0x1CE8), (0x1CED, 0x1CED),
    (0x1CF4, 0x1CF4), (0x1CF8, 0x1CF9), (0x1D2C, 0x1D6A), (0x1D78, 0x1D78), (0x1D9B, 0x1DFF),
    (0x1FBD, 0x1FBD), (0x1FBF, 0x1FC1), (0x1FCD, 0x1FCF), (0x1FDD, 0x1FDF), (0x1FED, 0x1FEF),
    (0x1FFD, 0x1FFE), (0x200B, 0x200F), (0x2018, 0x2019), (0x2024, 0x2024), (0x2027, 0x2027),
    (0x202A, 0x202E), (0x2060, 0x2064), (0x2066, 0x206F), (0x2071, 0x2071), (0x207F, 0x207F),
    (0x2090, 0x209C), (0x20D0, 0x20F0), (0x2C7C, 0x2C7D), (0x2CEF, 0x2CF1), (0x2D6F, 0x2D6F),
    (0x2D7F, 0x2D7F), (0x2DE0, 0x2DFF), (0x2E2F, 0x2E2F), (0x3005, 0x3005), (0x302A, 0x302D),
    (0x3031, 0x3035), (0x303B, 0x303B), (0x3099, 0x309E), (0x30FC, 0x30FE), (0xA015, 0xA015),
    (0xA4F8, 0xA4FD), (0xA60C, 0xA60C), (0xA66F, 0xA672), (0xA674, 0xA67D), (0xA67F, 0xA67F),
    (0xA69C, 0xA69F), (0xA6F0, 0xA6F1), (0xA700, 0xA721), (0xA770, 0xA770), (0xA788, 0xA78A),
    (0xA7F2, 0xA7F4), (0xA7F8, 0xA7F9), (0xA802, 0xA802), (0xA806, 0xA806), (0xA80B, 0xA80B),
    (0xA825, 0xA826), (0xA82C, 0xA82C), (0xA8C4, 0xA8C5), (0xA8E0, 0xA8F1), (0xA8FF, 0xA8FF),
    (0xA926, 0xA92D), (0xA947, 0xA951), (0xA980, 0xA982), (0xA9B3, 0xA9B3), (0xA9B6, 0xA9B9),
    (0xA9BC, 0xA9BD), (0xA9CF, 0xA9CF), (0xA9E5, 0xA9E6), (0xAA29, 0xAA2E), (0xAA31, 0xAA32),
    (0xAA35, 0xAA36), (0xAA43, 0xAA43), (0xAA4C, 0xAA4C), (0xAA70, 0xAA70), (0xAA7C, 0xAA7C),
    (0xAAB0, 0xAAB0), (0xAAB2, 0xAAB4), (0xAAB7, 0xAAB8), (0xAABE, 0xAABF), (0xAAC1, 0xAAC1),
    (0xAADD, 0xAADD), (0xAAEC, 0xAAED), (0xAAF3, 0xAAF4), (0xAAF6, 0xAAF6), (0xAB5B, 0xAB5F),
    (0xAB69, 0xAB6B), (0xABE5, 0xABE5), (0xABE8, 0xABE8), (0xABED, 0xABED), (0xFB1E, 0xFB1E),
    (0xFBB2, 0xFBC2), (0xFE00, 0xFE0F), (0xFE13, 0xFE13), (0xFE20, 0xFE2F), (0xFE52, 0xFE52),
    (0xFE55, 0xFE55), (0xFEFF, 0xFEFF), (0xFF07, 0xFF07), (0xFF0E, 0xFF0E), (0xFF1A, 0xFF1A),
    (0xFF3E, 0xFF3E), (0xFF40, 0xFF40), (0xFF70, 0xFF70), (0xFF9E, 0xFF9F), (0xFFE3, 0xFFE3),
    (0xFFF9, 0xFFFB), (0x101FD, 0x101FD), (0x102E0, 0x102E0), (0x10376, 0x1037A),
    (0x10780, 0x10785), (0x10787, 0x107B0), (0x107B2, 0x107BA), (0x10A01, 0x10A03),
    (0x10A05, 0x10A06), (0x10A0C, 0x10A0F), (0x10A38, 0x10A3A), (0x10A3F, 0x10A3F),
    (0x10AE5, 0x10AE6), (0x10D24, 0x10D27), (0x10EAB, 0x10EAC), (0x10F46, 0x10F50),
    (0x10F82, 0x10F85), (0x11001, 0x11001), (0x11038, 0x11046), (0x11070, 0x11070),
    (0x11073, 0x11074), (0x1107F, 0x11081), (0x110B3, 0x110B6), (0x110B9, 0x110BA),
    (0x110BD, 0x110BD), (0x110C2, 0x110C2), (0x110CD, 0x110CD), (0x11100, 0x11102),
    (0x11127, 0x1112B), (0x1112D, 0x11134), (0x11173, 0x11173), (0x11180, 0x11181),
    (0x111B6, 0x111BE), (0x111C9, 0x111CC), (0x111CF, 0x111CF), (0x1122F, 0x11231),
    (0x11234, 0x11234), (0x11236, 0x11237), (0x1123E, 0x1123E), (0x112DF, 0x112DF),
    (0x112E3, 0x112EA), (0x11300, 0x11301), (0x1133B, 0x1133C), (0x11340, 0x11340),
    (0x11366, 0x1136C), (0x11370, 0x11374), (0x11438, 0x1143F), (0x11442, 0x11444),
    (0x11446, 0x11446), (0x1145E, 0x1145E), (0x114B3, 0x114B8), (0x114BA, 0x114BA),
    (0x114BF, 0x114C0), (0x114C2, 0x114C3), (0x115B2, 0x115B5), (0x115BC, 0x115BD),
    (0x115BF, 0x115C0), (0x115DC, 0x115DD), (0x11633, 0x1163A), (0x1163D, 0x1163D),
    (0x1163F, 0x11640), (0x116AB, 0x116AB), (0x116AD, 0x116AD), (0x116B0, 0x116B5),
    (0x116B7, 0x116B7), (0x1171D, 0x1171F), (0x11722, 0x11725), (0x11727, 0x1172B),
    (0x1182F, 0x11837), (0x11839, 0x1183A), (0x1193B, 0x1193C), (0x1193E, 0x1193E),
    (0x11943, 0x11943), (0x119D4, 0x119D7), (0x119DA, 0x119DB), (0x119E0, 0x119E0),
    (0x11A01, 0x11A0A), (0x11A33, 0x11A38), (0x11A3B, 0x11A3E), (0x11A47, 0x11A47),
    (0x11A51, 0x11A56), (0x11A59, 0x11A5B), (0x11A8A, 0x11A96), (0x11A98, 0x11A99),
    (0x11C30, 0x11C36), (0x11C38, 0x11C3D), (0x11C3F, 0x11C3F), (0x11C92, 0x11CA7),
    (0x11CAA, 0x11CB0), (0x11CB2, 0x11CB3), (0x11CB5, 0x11CB6), (0x11D31, 0x11D36),
    (0x11D3A, 0x11D3A), (0x11D3C, 0x11D3D), (0x11D3F, 0x11D45), (0x11D47, 0x11D47),
    (0x11D90, 0x11D91), (0x11D95, 0x11D95), (0x11D97, 0x11D97), (0x11EF3, 0x11EF4),
    (0x13430, 0x13438), (0x16AF0, 0x16AF4), (0x16B30, 0x16B36), (0x16B40, 0x16B43),
    (0x16F4F, 0x16F4F), (0x16F8F, 0x16F9F), (0x16FE0, 0x16FE1), (0x16FE3, 0x16FE4),
    (0x1AFF0, 0x1AFF3), (0x1AFF5, 0x1AFFB), (0x1AFFD, 0x1AFFE), (0x1BC9D, 0x1BC9E),
    (0x1BCA0, 0x1BCA3), (0x1CF00, 0x1CF2D), (0x1CF30, 0x1CF46), (0x1D167, 0x1D169),
    (0x1D173, 0x1D182), (0x1D185, 0x1D18B), (0x1D1AA, 0x1D1AD), (0x1D242, 0x1D244),
    (0x1DA00, 0x1DA36), (0x1DA3B, 0x1DA6C), (0x1DA75, 0x1DA75), (0x1DA84, 0x1DA84),
    (0x1DA9B, 0x1DA9F), (0x1DAA1, 0x1DAAF), (0x1E000, 0x1E006), (0x1E008, 0x1E018),
    (0x1E01B, 0x1E021), (0x1E023, 0x1E024), (0x1E026, 0x1E02A), (0x1E130, 0x1E13D),
    (0x1E2AE, 0x1E2AE), (0x1E2EC, 0x1E2EF), (0x1E8D0, 0x1E8D6), (0x1E944, 0x1E94B),
    (0x1F3FB, 0x1F3FF), (0xE0001, 0xE0001), (0xE0020, 0xE007F), (0xE0100, 0xE01EF)]"

definition cased_ranges :: "(nat \<times> nat) list" where
  "cased_ranges =
   [(0x41, 0x5A), (0x61, 0x7A), (0xAA, 0xAA), (0xB5, 0xB5), (0xBA, 0xBA), (0xC0, 0xD6),
    (0xD8, 0xF6), (0xF8, 0x1BA), (0x1BC, 0x1BF), (0x1C4, 0x293), (0x295, 0x2AF),
    (0x370, 0x373), (0x376, 0x377), (0x37B, 0x37D), (0x37F, 0x37F), (0x386, 0x386),
    (0x388, 0x38A), (0x38C, 0x38C), (0x38E, 0x3A1), (0x3A3, 0x3F5), (0x3F7, 0x481),
    (0x48A, 0x52F), (0x531, 0x556), (0x560, 0x588), (0x10A0, 0x10C5), (0x10C7, 0x10C7),
    (0x10CD, 0x10CD), (0x10D0, 0x10FA), (0x10FD, 0x10FF), (0x13A0, 0x13F5), (0x13F8, 0x13FD),
    (0x1C80, 0x1C88), (0x1C90, 0x1CBA), (0x1CBD, 0x1CBF), (0x1D00, 0x1D2B), (0x1D6B, 0x1D77),
    (0x1D79, 0x1D9A), (0x1E00, 0x1F15), (0x1F18, 0x1F1D), (0x1F20, 0x1F45), (0x1F48, 0x1F4D),
    (0x1F50, 0x1F57), (0x1F59, 0x1F59), (0x1F5B, 0x1F5B), (0x1F5D, 0x1F5D), (0x1F5F, 0x1F7D),
    (0x1F80, 0x1FB4), (0x1FB6, 0x1FBC), (0x1FBE, 0x1FBE), (0x1FC2, 0x1FC4), (0x1FC6, 0x1FCC),
    (0x1FD0, 0x1FD3), (0x1FD6, 0x1FDB), (0x1FE0, 0x1FEC), (0x1FF2, 0x1FF4), (0x1FF6, 0x1FFC),
    (0x2102, 0x2102), (0x2107, 0x2107), (0x210A, 0x2113), (0x2115, 0x2115), (0x2119, 0x211D),
    (0x2124, 0x2124), (0x2126, 0x2126), (0x2128, 0x2128), (0x212A, 0x212D), (0x212F, 0x2134),
    (0x2139, 0x2139), (0x213C, 0x213F), (0x2145, 0x2149), (0x214E, 0x214E), (0x2160, 0x217F),
    (0x2183, 0x2184), (0x24B6, 0x24E9), (0x2C00, 0x2C7B), (0x2C7E, 0x2CE4), (0x2CEB, 0x2CEE),
    (0x2CF2, 0x2CF3), (0x2D00, 0x2D25), (0x2D27, 0x2D27), (0x2D2D, 0x2D2D), (0xA640, 0xA66D),
    (0xA680, 0xA69B), (0xA722, 0xA76F), (0xA771, 0xA787), (0xA78B, 0xA78E), (0xA790, 0xA7CA),
    (0xA7D0, 0xA7D1), (0xA7D3, 0xA7D3), (0xA7D5, 0xA7D9), (0xA7F5, 0xA7F6), (0xA7FA, 0xA7FA),
    (0xAB30, 0xAB5A), (0xAB60, 0xAB68), (0xAB70, 0xABBF), (0xFB00, 0xFB06), (0xFB13, 0xFB17),
    (0xFF21, 0xFF3A), (0xFF41, 0xFF5A), (0x10400, 0x1044F), (0x104B0, 0x104D3),
    (0x104D8, 0x104FB), (0x10570, 0x1057A), (0x1057C, 0x1058A), (0x1058C, 0x10592),
    (0x10594, 0x10595), (0x10597, 0x105A1), (0x105A3, 0x105B1), (0x105B3, 0x105B9),
    (0x105BB, 0x105BC), (0x10C80, 0x10CB2), (0x10CC0, 0x10CF2), (0x118A0, 0x118DF),
    (0x16E40, 0x16E7F), (0x1D400, 0x1D454), (0x1D456, 0x1D49C), (0x1D49E, 0x1D49F),
    (0x1D4A2, 0x1D4A2), (0x1D4A5, 0x1D4A6), (0x1D4A9, 0x1D4AC), (0x1D4AE, 0x1D4B9),
    (0x1D4BB, 0x1D4BB), (0x1D4BD, 0x1D4C3), (0x1D4C5, 0x1D505), (0x1D507, 0x1D50A),
    (0x1D50D, 0x1D514), (0x1D516, 0x1D51C), (0x1D51E, 0x1D539), (0x1D53B, 0x1D53E),
    (0x1D540, 0x1D544), (0x1D546, 0x1D546), (0x1D54A, 0x1D550), (0x1D552, 0x1D6A5),
    (0x1D6A8, 0x1D6C0), (0x1D6C2, 0x1D6DA), (0x1D6DC, 0x1D6FA), (0x1D6FC, 0x1D714),
    (0x1D716, 0x1D734), (0x1D736, 0x1D74E), (0x1D750, 0x1D76E), (0x1D770, 0x1D788),
    (0x1D78A, 0x1D7A8), (0x1D7AA, 0x1D7C2), (0x1D7C4, 0x1D7CB), (0x1DF00, 0x1DF09),
    (0x1DF0B, 0x1DF1E), (0x1E900, 0x1E943), (0x1F130, 0x1F149), (0x1F150, 0x1F169),
    (0x1F170, 0x1F189)]"

definition in_ranges :: "(nat \<times> nat) list \<Rightarrow> nat \<Rightarrow> bool" where
  "in_ranges ranges c = list_ex (\<lambda>(lo, hi). lo \<le> c \<and> c \<le> hi) ranges"

definition case_ignorable :: "nat \<Rightarrow> bool" where
  "case_ignorable c = in_ranges case_ignorable_ranges c"

definition cased :: "nat \<Rightarrow> bool" where
  "cased c = in_ranges cased_ranges c"

definition simple_lowercase :: "nat \<Rightarrow> nat" where
  "simple_lowercase c =
     (case find (\<lambda>(lo, hi, stride, delta). lo \<le> c \<and> c \<le> hi \<and> (c - lo) mod stride = 0)
             lowercase_ranges of
        None \<Rightarrow> c
      | Some (lo, hi, stride, delta) \<Rightarrow> nat (int c + delta))"

text \<open>
  Two code points are not mapped by the table. U+0130 becomes the two code points
  U+0069 U+0307. The capital sigma U+03A3 becomes the final small sigma U+03C2 when a cased
  letter stands before it and none after it, case-ignorable code points in between not
  counted, and the small sigma U+03C3 otherwise. \<open>before\<close> holds the code points
  already passed, the nearest first.
\<close>

fun cased_after_ignorables :: "nat list \<Rightarrow> bool" where
  "cased_after_ignorables [] = False"
| "cased_after_ignorables (c # cs) =
     (if case_ignorable c then cased_after_ignorables cs else cased c)"

fun lowercase_from :: "nat list \<Rightarrow> nat list \<Rightarrow> nat list" where
  "lowercase_from before [] = []"
| "lowercase_from before (c # cs) =
     (if c = 0x3A3 then
        (if cased_after_ignorables before \<and> \<not> cased_after_ignorables cs then [0x3C2]
         else [0x3C3])
      else if c = 0x130 then [0x69, 0x307]
      else [simple_lowercase c])
     @ lowercase_from (c # before) cs"

text \<open>UTF-8: from bytes to code points and back.\<close>

definition continuation :: "nat \<Rightarrow> bool" where
  "continuation b = (0x80 \<le> b \<and> b < 0xC0)"

fun utf8_decode :: "nat list \<Rightarrow> nat list option" where
  "utf8_decode [] = Some []"
| "utf8_decode (b # bs) =
     (if b < 0x80 then map_option ((#) b) (utf8_decode bs)
      else if 0xC2 \<le> b \<and> b < 0xE0 then
        (case bs of
           b1 # rest \<Rightarrow>
             if continuation b1
             then map_option ((#) ((b - 0xC0) * 64 + (b1 - 0x80))) (utf8_decode rest)
             else None
         | _ \<Rightarrow> None)
      else if 0xE0 \<le> b \<and> b < 0xF0 then
        (case bs of
           b1 # b2 # rest \<Rightarrow>
             if continuation b1 \<and> continuation b2
             then map_option ((#) ((b - 0xE0) * 4096 + (b1 - 0x80) * 64 + (b2 - 0x80)))
                    (utf8_decode rest)
             else None
         | _ \<Rightarrow> None)
      else if 0xF0 \<le> b \<and> b < 0xF5 then
        (case bs of
           b1 # b2 # b3 # rest \<Rightarrow>
             if continuation b1 \<and> continuation b2 \<and> continuation b3
             then map_option
                    ((#) ((b - 0xF0) * 262144 + (b1 - 0x80) * 4096 + (b2 - 0x80) * 64 + (b3 - 0x80)))
                    (utf8_decode rest)
             else None
         | _ \<Rightarrow> None)
      else None)"

definition utf8_encode :: "nat \<Rightarrow> nat list" where
  "utf8_encode c =
     (if c < 0x80 then [c]
      else if c < 0x800 then [0xC0 + c div 64, 0x80 + c mod 64]
      else if c < 0x10000 then [0xE0 + c div 4096, 0x80 + (c div 64) mod 64, 0x80 + c mod 64]
      else [0xF0 + c div 262144, 0x80 + (c div 4096) mod 64, 0x80 + (c div 64) mod 64,
            0x80 + c mod 64])"

text \<open>A list of bytes that is not UTF-8 text is no string of the program; it is left as it is.\<close>

definition toLowerCase :: "string \<Rightarrow> string" where
  "toLowerCase s =
     (case utf8_decode (map of_char s) of
        None \<Rightarrow> s
      | Some code_points \<Rightarrow>
          map char_of (concat (map utf8_encode (lowercase_from [] code_points))))"

text \<open>
  On text of the ASCII range the result is the text with the letters A to Z moved 32
  code points up (lemma \<open>toLowerCase_ascii\<close> below).
\<close>

definition ascii_text :: "string \<Rightarrow> bool" where
  "ascii_text s = list_all (\<lambda>c. of_char c < (128::nat)) s"

definition ascii_lower :: "nat \<Rightarrow> nat" where
  "ascii_lower c = (if 0x41 \<le> c \<and> c \<le> 0x5A then c + 32 else c)"

section \<open>Static data (constants.ts)\<close>

record IncidentRecord =
  date :: string
  state :: string
  city_county :: string
  address :: string
  killed :: int
  injured :: int
  source_link :: string

definition MOCK_DATA :: "IncidentRecord list" where
  "MOCK_DATA =
   [\<lparr>date = ''Jan 8, 2025'', state = ''Illinois'', city_county = ''Chicago'',
      address = ''1200 Block of S Western Ave'', killed = 1, injured = 3,
      source_link = ''/incident/123456''\<rparr>,
    \<lparr>date = ''Jan 8, 2025'', state = ''Texas'', city_county = ''Dallas'',
      address = ''Ross Ave'', killed = 0, injured = 4, source_link = ''/incident/123459''\<rparr>,
    \<lparr>date = ''Jan 7, 2025'', state = ''California'', city_county = ''Los Angeles'',
      address = ''Wilshire Blvd'', killed = 0, injured = 1, source_link = ''/incident/123457''\<rparr>,
    \<lparr>date = ''Jan 7, 2025'', state = ''Texas'', city_county = ''Houston'',
      address = ''Main Street'', killed = 2, injured = 0, source_link = ''/incident/123458''\<rparr>,
    \<lparr>date = ''Jan 6, 2025'', state = ''Florida'', city_county = ''Miami'',
      address = ''Brickell Ave'', killed = 1, injured = 1, source_link = ''/incident/123460''\<rparr>,
    \<lparr>date = ''Jan 6, 2025'', state = ''Illinois'', city_county = ''Rockford'',
      address = ''State St'', killed = 0, injured = 2, source_link = ''/incident/123461''\<rparr>,
    \<lparr>date = ''Jan 5, 2025'', state = ''California'', city_county = ''Oakland'',
      address = ''Broadway'', killed = 3, injured = 0, source_link = ''/incident/123462''\<rparr>,
    \<lparr>date = ''Jan 5, 2025'', state = ''Georgia'', city_county = ''Atlanta'',
      address = ''Peachtree St'', killed = 1, injured = 5, source_link = ''/incident/123463''\<rparr>,
    \<lparr>date = ''Jan 4, 2025'', state = ''Ohio'', city_county = ''Cleveland'',
      address = ''Euclid Ave'', killed = 0, injured = 1, source_link = ''/incident/123464''\<rparr>,
    \<lparr>date = ''Jan 4, 2025'', state = ''Pennsylvania'', city_county = ''Philadelphia'',
      address = ''Broad St'', killed = 2, injured = 2, source_link = ''/incident/123465''\<rparr>]"

text \<open>
  A cell of the ten-year table is a number or a string (the last cell of the last
  category is the string \<^verbatim>\<open>"Pending"\<close>). \<^verbatim>\<open>Object.entries\<close> walks the categories in
  the order they are written, so they are kept as an association list.
\<close>

datatype cell = Num int | Str string

record YearlyMetricTable =
  years :: "int list"
  categories :: "(string \<times> cell list) list"

definition GVA_10_YEAR_REVIEW :: YearlyMetricTable where
  "GVA_10_YEAR_REVIEW =
   \<lparr>years = [2015, 2016, 2017, 2018, 2019, 2020, 2021, 2022, 2023, 2024],
    categories =
     [(''Deaths (Willful/Accidental)'',
         map Num [13777, 15375, 15907, 15071, 15667, 19850, 21383, 20514, 19135, 16725]),
      (''Injuries (Willful/Accidental)'',
         map Num [26907, 30597, 31353, 28175, 30196, 39526, 40626, 38599, 36562, 31646]),
      (''Mass Shooting'', map Num [332, 383, 347, 335, 414, 611, 689, 644, 659, 503]),
      (''Mass Murder'', map Num [21, 25, 20, 19, 31, 21, 28, 36, 40, 30]),
      (''Children [0-11] Killed'', map Num [202, 231, 234, 198, 211, 303, 313, 314, 301, 250]),
      (''Children [0-11] Injured'', map Num [477, 434, 487, 464, 485, 701, 745, 679, 644, 547]),
      (''Teens [12-17] Killed'',
         map Num [626, 727, 823, 736, 795, 1105, 1278, 1392, 1407, 1171]),
      (''Teens [12-17] Injured'',
         map Num [2074, 2429, 2439, 2142, 2340, 3067, 3403, 3821, 3896, 3239]),
      (''OIS - Officer Killed'', map Num [40, 68, 49, 55, 69, 59, 68, 72, 53, 75]),
      (''OIS - Officer Injured'', map Num [275, 297, 286, 270, 295, 346, 370, 341, 369, 322]),
      (''OIS - Suspect Killed'',
         map Num [1007, 1152, 1232, 1273, 1290, 1299, 1326, 1397, 1444, 1445]),
      (''Defensive Gun Use'',
         map Num [1400, 1992, 2118, 1881, 1633, 1551, 1367, 1286, 1286, 1220]),
      (''Unintentional Shooting'',
         map Num [1995, 2236, 2070, 1693, 1906, 2328, 2022, 1648, 1611, 1436]),
      (''Suicide by Firearm (CDC)'',
         map Num [22018, 22938, 23854, 24432, 23941, 24292, 26328, 27038, 27310]
           @ [Str ''Pending''])]\<rparr>"

section \<open>Incident filter (App, \<^verbatim>\<open>filteredIncidents\<close>)\<close>

text \<open>
  The source filters the constant \<open>MOCK_DATA\<close> by the two filter strings of the UI
  state. The list is a parameter here, so that the filter is stated for every list.
\<close>

definition filteredIncidents ::
  "IncidentRecord list \<Rightarrow> string \<Rightarrow> string \<Rightarrow> IncidentRecord list" where
  "filteredIncidents L stateFilter cityFilter =
     filter (\<lambda>item.
        let matchesState = includes_str (toLowerCase (state item)) (toLowerCase stateFilter);
            matchesCity = includes_str (toLowerCase (city_county item)) (toLowerCase cityFilter)
        in matchesState \<and> matchesCity) L"

text \<open>
  The specification's wording, for text of the ASCII range. Two characters are the same
  letter up to case when they are equal, or one of them is a capital letter A to Z and
  the other one stands 32 code points above it. \<open>s\<close> contains \<open>q\<close> case-insensitively
  when some contiguous part of \<open>s\<close> is \<open>q\<close> up to the case of its letters.
\<close>

definition is_capital :: "char \<Rightarrow> bool" where
  "is_capital c = (0x41 \<le> (of_char c :: nat) \<and> (of_char c :: nat) \<le> 0x5A)"

definition same_letter :: "char \<Rightarrow> char \<Rightarrow> bool" where
  "same_letter c d =
     (c = d
      \<or> (is_capital c \<and> (of_char d :: nat) = of_char c + 32)
      \<or> (is_capital d \<and> (of_char c :: nat) = of_char d + 32))"

definition contains_ignoring_case :: "string \<Rightarrow> string \<Rightarrow> bool" where
  "contains_ignoring_case s q =
     (\<exists>before part after. s = before @ part @ after \<and> list_all2 same_letter part q)"

text \<open>
  Text outside the ASCII range, as UTF-8: the Greek capital letter sigma (U+03A3), the
  Greek word in capitals omicron, delta, omicron, sigma (U+039F U+0394 U+039F U+03A3),
  the Kelvin sign (U+212A), and an incident record whose state is that Greek word.
\<close>

definition GREEK_CAPITAL_SIGMA :: string where
  "GREEK_CAPITAL_SIGMA = [CHR 0xCE, CHR 0xA3]"

definition GREEK_ODOS :: string where
  "GREEK_ODOS = [CHR 0xCE, CHR 0x9F, CHR 0xCE, CHR 0x94, CHR 0xCE, CHR 0x9F, CHR 0xCE, CHR 0xA3]"

definition KELVIN_SIGN :: string where
  "KELVIN_SIGN = [CHR 0xE2, CHR 0x84, CHR 0xAA]"

definition greek_incident :: IncidentRecord where
  "greek_incident =
     \<lparr>date = ''Jan 9, 2025'', state = GREEK_ODOS, city_county = ''Athens'',
      address = ''Main Street'', killed = 0, injured = 1, source_link = ''/incident/123466''\<rparr>"

section \<open>CSV export (App, \<^verbatim>\<open>downloadSummaryCSV\<close> and \<^verbatim>\<open>downloadFilteredIncidentsCSV\<close>)\<close>

definition dq :: string where
  \<open>dq = ''"''\<close>

definition nl :: string where
  "nl = ''\<newline>''"

text \<open>\<^verbatim>\<open>Array.prototype.join\<close> turns each element into a string first.\<close>

fun cell_toString :: "cell \<Rightarrow> string" where
  "cell_toString (Num n) = number_toString n"
| "cell_toString (Str s) = s"

text \<open>
  The text built by \<^verbatim>\<open>downloadSummaryCSV\<close>: the header line, then \<^verbatim>\<open>csvContent +=\<close>
  once for each entry of the categories, in order.
\<close>

definition summaryCSV :: "YearlyMetricTable \<Rightarrow> string" where
  "summaryCSV t =
     (let years_joined = join '','' (map number_toString (years t))
      in foldl (\<lambda>csvContent (cat, vals).
                  csvContent @ dq @ cat @ dq @ '','' @ join '','' (map cell_toString vals) @ nl)
               (''Category,'' @ years_joined @ nl)
               (categories t))"

text \<open>
  What the page hands to the browser: a blob with a MIME type, saved under a file name.
  The object URL is created and revoked in the same call and leaves nothing behind.
\<close>

record Download =
  filename :: string
  mime :: string
  csvContent :: string

definition downloadSummaryCSV :: "Download list \<Rightarrow> Download list" where
  "downloadSummaryCSV saved =
     saved @ [\<lparr>filename = ''gva_10yr_summary.csv'', mime = ''text/csv'',
               csvContent = summaryCSV GVA_10_YEAR_REVIEW\<rparr>]"

definition headers :: "string list" where
  "headers = [''Date'', ''State'', ''City/County'', ''Address'', ''Killed'', ''Injured'']"

definition incidentRow :: "IncidentRecord \<Rightarrow> string list" where
  "incidentRow inc =
     [date inc, dq @ state inc @ dq, dq @ city_county inc @ dq, dq @ address inc @ dq,
      number_toString (killed inc), number_toString (injured inc)]"

definition incidentsCSV :: "IncidentRecord list \<Rightarrow> string" where
  "incidentsCSV incs =
     (let rows = map incidentRow incs
      in join '','' headers @ nl @ join nl (map (join '','') rows))"

text \<open>
  \<open>isoNow\<close> is \<^verbatim>\<open>new Date().toISOString()\<close>, read from the clock by the caller. The
  first statement of the source returns when the filtered list is empty.
\<close>

definition downloadFilteredIncidentsCSV ::
  "string \<Rightarrow> IncidentRecord list \<Rightarrow> Download list \<Rightarrow> Download list" where
  "downloadFilteredIncidentsCSV isoNow incs saved =
     (if length incs = 0 then saved
      else saved @
        [\<lparr>filename = ''gva_filtered_incidents_''
             @ (case split (CHR ''T'') isoNow of [] \<Rightarrow> ''undefined'' | d # _ \<Rightarrow> d) @ ''.csv'',
          mime = ''text/csv'',
          csvContent = incidentsCSV incs\<rparr>])"

subsection \<open>The specification's templates\<close>

text \<open>
  The specification gives the two outputs as templates in which every line, the last
  one too, ends with a newline:
  \<^verbatim>\<open>Category,2015,2016,...\n"<cat>",<v1>,<v2>,...\n\<close> and
  \<^verbatim>\<open>Date,State,City/County,Address,Killed,Injured\n<date>,"<state>","<city>","<address>",<killed>,<injured>\n\<close>.
\<close>

definition spec_summary_line :: "string \<times> cell list \<Rightarrow> string" where
  "spec_summary_line entry =
     dq @ fst entry @ dq @ '','' @ join '','' (map cell_toString (snd entry))"

definition spec_summary_template :: "YearlyMetricTable \<Rightarrow> string" where
  "spec_summary_template t =
     ''Category,'' @ join '','' (map number_toString (years t)) @ nl
       @ concat (map (\<lambda>entry. spec_summary_line entry @ nl) (categories t))"

definition spec_incident_line :: "IncidentRecord \<Rightarrow> string" where
  "spec_incident_line r =
     date r @ '','' @ dq @ state r @ dq @ '','' @ dq @ city_county r @ dq @ '',''
       @ dq @ address r @ dq @ '','' @ number_toString (killed r) @ '',''
       @ number_toString (injured r)"

definition spec_incident_template :: "IncidentRecord list \<Rightarrow> string" where
  "spec_incident_template incs =
     ''Date,State,City/County,Address,Killed,Injured'' @ nl
       @ concat (map (\<lambda>r. spec_incident_line r @ nl) incs)"

definition header_line :: "YearlyMetricTable \<Rightarrow> string" where
  "header_line t = ''Category,'' @ join '','' (map number_toString (years t))"

subsection \<open>Reading the summary back\<close>

text \<open>
  The reader the round-trip property describes: split the text into lines, take the
  years from the header, and for each other line unquote the first cell and pair every
  further cell with the year at the same position. A cell of digits is a number, any
  other cell is kept as text.
\<close>

definition unquote :: "string \<Rightarrow> string" where
  "unquote s =
     (if 2 \<le> length s \<and> take 1 s = dq \<and> drop (length s - 1) s = dq
      then take (length s - 2) (drop 1 s) else s)"

definition digit_value :: "char \<Rightarrow> nat option" where
  "digit_value c = map_of (zip ''0123456789'' [0, 1, 2, 3, 4, 5, 6, 7, 8, 9]) c"

fun digits_value :: "nat \<Rightarrow> string \<Rightarrow> nat option" where
  "digits_value acc [] = Some acc"
| "digits_value acc (c # cs) =
     (case digit_value c of None \<Rightarrow> None | Some d \<Rightarrow> digits_value (10 * acc + d) cs)"

definition parse_cell :: "string \<Rightarrow> cell" where
  "parse_cell s =
     (if s = [] then Str s
      else case digits_value 0 s of None \<Rightarrow> Str s | Some n \<Rightarrow> Num (int n))"

definition parse_year :: "string \<Rightarrow> int option" where
  "parse_year s = (if s = [] then None else map_option int (digits_value 0 s))"

definition parse_summary_line :: "int list \<Rightarrow> string \<Rightarrow> string \<times> (int \<times> cell) list" where
  "parse_summary_line ys line =
     (case split (CHR '','') line of
        [] \<Rightarrow> ([], [])
      | c # cells \<Rightarrow> (unquote c, zip ys (map parse_cell cells)))"

definition parse_summary_csv :: "string \<Rightarrow> (string \<times> (int \<times> cell) list) list option" where
  "parse_summary_csv csv =
     (case filter (\<lambda>line. line \<noteq> []) (split (CHR ''\<newline>'') csv) of
        [] \<Rightarrow> None
      | header # rows \<Rightarrow>
          (case split (CHR '','') header of
             [] \<Rightarrow> None
           | _ # year_cells \<Rightarrow>
               if list_all (\<lambda>y. parse_year y \<noteq> None) year_cells
               then Some (map (parse_summary_line (map (the \<circ> parse_year) year_cells)) rows)
               else None))"

text \<open>The table as a mapping from category to the value of each year.\<close>

definition table_mapping :: "YearlyMetricTable \<Rightarrow> (string \<times> (int \<times> cell) list) list" where
  "table_mapping t = map (\<lambda>(cat, vals). (cat, zip (years t) vals)) (categories t)"

text \<open>
  The tables for which reading back is the inverse of writing: there is at least one
  year and no year is negative; no category name has a comma or a newline in it; every
  category has at least one cell; a number cell is not negative and a text cell has no
  comma and no newline and is not made of digits only.
\<close>

definition plain_text :: "string \<Rightarrow> bool" where
  "plain_text s = (CHR '','' \<notin> set s \<and> CHR ''\<newline>'' \<notin> set s)"

fun wf_cell :: "cell \<Rightarrow> bool" where
  "wf_cell (Num n) = (0 \<le> n)"
| "wf_cell (Str s) = (plain_text s \<and> (s = [] \<or> digits_value 0 s = None))"

definition wf_entry :: "string \<times> cell list \<Rightarrow> bool" where
  "wf_entry entry = (plain_text (fst entry) \<and> snd entry \<noteq> [] \<and> list_all wf_cell (snd entry))"

definition wf_table :: "YearlyMetricTable \<Rightarrow> bool" where
  "wf_table t = (years t \<noteq> [] \<and> list_all (\<lambda>y. 0 \<le> y) (years t) \<and> list_all wf_entry (categories t))"

section \<open>AI gateway (services/gemini.ts)\<close>

subsection \<open>The SDK and the endpoint, as far as the source uses them\<close>

datatype js_error = JsError string

record Citation =
  uri :: string
  title :: "string option"

record GroundingChunk =
  web :: "Citation option"
  maps :: "Citation option"

record GroundingMetadata =
  groundingChunks :: "GroundingChunk list option"

record Candidate =
  groundingMetadata :: "GroundingMetadata option"

text \<open>\<open>response_text\<close> is the \<^verbatim>\<open>text\<close> property of a response: a string or undefined.\<close>

record GenerateContentResponse =
  response_text :: "string option"
  candidates :: "Candidate list option"

datatype tool = googleSearch | googleMaps

record LatLng =
  latitude :: real
  longitude :: real

text \<open>
  \<open>toolConfig\<close> is \<open>None\<close> when the request has no \<^verbatim>\<open>toolConfig\<close>, and \<open>Some rc\<close> for
  \<^verbatim>\<open>toolConfig: {retrievalConfig: rc}\<close>, where \<open>rc\<close> is \<open>None\<close> for \<^verbatim>\<open>undefined\<close>.
\<close>

record GenerateContentParameters =
  model :: string
  contents :: string
  tools :: "tool list"
  temperature :: "real option"
  toolConfig :: "LatLng option option"

record Chat =
  chat_model :: string
  systemInstruction :: string
  history :: "string list"

text \<open>
  Everything outside the source: the API key of the environment, the constructor
  \<^verbatim>\<open>new GoogleGenAI\<close> (which may throw), \<^verbatim>\<open>models.generateContent\<close> (which answers or
  throws), \<^verbatim>\<open>chats.create\<close> (which may throw), \<^verbatim>\<open>chat.sendMessage\<close> (which answers or
  throws, and leaves the session object in a new state), \<^verbatim>\<open>JSON.stringify\<close> of the two
  data sets and the text of a number in a template literal.
\<close>

record sdk =
  API_KEY :: "string option"
  GoogleGenAI :: "string \<Rightarrow> js_error option"
  generateContent :: "GenerateContentParameters \<Rightarrow> js_error + GenerateContentResponse"
  chats_create :: "js_error option"
  sendMessage :: "Chat \<Rightarrow> string \<Rightarrow> (js_error + GenerateContentResponse) \<times> Chat"
  JSON_stringify_review :: "YearlyMetricTable \<Rightarrow> string"
  JSON_stringify_incidents :: "IncidentRecord list \<Rightarrow> string"
  Number_toString :: "real \<Rightarrow> string"

text \<open>
  The state of the module and what it has done so far: the session objects created
  (a reference to one is its index), the module variable \<^verbatim>\<open>currentChat\<close>, the
  \<^verbatim>\<open>generateContent\<close> requests issued, the \<^verbatim>\<open>sendMessage\<close> calls issued (on which
  session, with which message) and the lines written by \<^verbatim>\<open>console.error\<close>.
\<close>

record world =
  heap :: "Chat list"
  currentChat :: "nat option"
  requests :: "GenerateContentParameters list"
  chat_sends :: "(nat \<times> string) list"
  console :: "string list"

definition init_world :: world where
  "init_world = \<lparr>heap = [], currentChat = None, requests = [], chat_sends = [], console = []\<rparr>"

text \<open>
  An asynchronous function either resolves (\<open>Inr\<close>) or rejects (\<open>Inl\<close>), and leaves the
  world changed. \<open>try_catch\<close> is \<^verbatim>\<open>try { body } catch (error) { handler }\<close>.
\<close>

type_synonym 'a js = "world \<Rightarrow> (js_error + 'a) \<times> world"

definition try_catch :: "'a js \<Rightarrow> (js_error \<Rightarrow> 'a js) \<Rightarrow> 'a js" where
  "try_catch body handler w =
     (case body w of
        (Inl error, w') \<Rightarrow> handler error w'
      | (Inr v, w') \<Rightarrow> (Inr v, w'))"

text \<open>\<^verbatim>\<open>s || d\<close> for a string or undefined \<open>s\<close>: the empty string is falsy.\<close>

definition or_else :: "string option \<Rightarrow> string \<Rightarrow> string" where
  "or_else s d = (case s of None \<Rightarrow> d | Some v \<Rightarrow> if v = [] then d else v)"

text \<open>\<^verbatim>\<open>response.candidates?.[0]?.groundingMetadata?.groundingChunks || []\<close>\<close>

definition grounding_sources :: "GenerateContentResponse \<Rightarrow> GroundingChunk list" where
  "grounding_sources response =
     (case candidates response of
        None \<Rightarrow> []
      | Some [] \<Rightarrow> []
      | Some (c # _) \<Rightarrow>
          (case groundingMetadata c of
             None \<Rightarrow> []
           | Some m \<Rightarrow> (case groundingChunks m of None \<Rightarrow> [] | Some chunks \<Rightarrow> chunks)))"

definition getAI :: "sdk \<Rightarrow> js_error + unit" where
  "getAI env =
     (case GoogleGenAI env (or_else (API_KEY env) []) of
        Some error \<Rightarrow> Inl error
      | None \<Rightarrow> Inr ())"

record GroundedResponse =
  "text" :: string
  sources :: "GroundingChunk list"

subsection \<open>\<^verbatim>\<open>generateEnhancedDataReport\<close>\<close>

definition report_prompt :: "string \<Rightarrow> string \<Rightarrow> string" where
  "report_prompt aggregateData recentData =
     ''You are a Senior Data Analyst specializing in public safety. '' @ nl
     @ ''          Analyze the following GVA datasets:'' @ nl
     @ ''          '' @ nl
     @ ''          1. 10-YEAR AGGREGATE REVIEW: '' @ aggregateData @ nl
     @ ''          2. RECENT INCIDENT SAMPLE: '' @ recentData @ nl
     @ ''          '' @ nl
     @ ''          Provide a comprehensive Markdown report that includes:'' @ nl
     @ ''          - A summary of key trends over the last decade.'' @ nl
     @ ''          - Analysis of most frequent states/cities mentioned in recent reports vs historical hotspots.'' @ nl
     @ ''          - Calculation/estimation of average casualties per year and per incident based on provided data.'' @ nl
     @ ''          - Temporal patterns (e.g., year-over-year shifts, seasonal peaks).'' @ nl
     @ ''          '' @ nl
     @ ''          Use Google Search to cross-reference these findings with current national safety reports or legislative changes that might explain these patterns.'' @ nl
     @ ''          '' @ nl
     @ ''          Format with clear headings, bullet points, and a concluding executive summary.''"

definition report_request :: "sdk \<Rightarrow> GenerateContentParameters" where
  "report_request env =
     (let aggregateData = JSON_stringify_review env GVA_10_YEAR_REVIEW;
          recentData = JSON_stringify_incidents env MOCK_DATA
      in \<lparr>model = ''gemini-3-flash-preview'',
          contents = report_prompt aggregateData recentData,
          tools = [googleSearch],
          temperature = Some (3 / 10),
          toolConfig = None\<rparr>)"

definition report_fallback :: GroundedResponse where
  "report_fallback =
     \<lparr>text = ''Error generating report. Please check your API key and connection.'',
      sources = []\<rparr>"

definition report_body :: "sdk \<Rightarrow> GroundedResponse js" where
  "report_body env w =
     (case getAI env of
        Inl error \<Rightarrow> (Inl error, w)
      | Inr ai \<Rightarrow>
          (let request = report_request env;
               w1 = w\<lparr>requests := requests w @ [request]\<rparr>
           in case generateContent env request of
                Inl error \<Rightarrow> (Inl error, w1)
              | Inr response \<Rightarrow>
                  (Inr \<lparr>text = or_else (response_text response) ''No analysis available.'',
                        sources = grounding_sources response\<rparr>, w1)))"

definition generateEnhancedDataReport :: "sdk \<Rightarrow> GroundedResponse js" where
  "generateEnhancedDataReport env =
     try_catch (report_body env)
       (\<lambda>error w. (Inr report_fallback, w\<lparr>console := console w @ [''Enhanced Report Error:'']\<rparr>))"

subsection \<open>\<^verbatim>\<open>findLocalSafetyResources\<close>\<close>

text \<open>
  The arguments are optional numbers. \<^verbatim>\<open>lat && lng\<close> is used as a condition: it holds
  when both are given and neither is a falsy number. Of the falsy numbers only zero is a
  real number (NaN is not represented).
\<close>

definition lat_and_lng :: "real option \<Rightarrow> real option \<Rightarrow> (real \<times> real) option" where
  "lat_and_lng lat lng =
     (case lat of
        None \<Rightarrow> None
      | Some a \<Rightarrow>
          if a = 0 then None
          else (case lng of
                  None \<Rightarrow> None
                | Some b \<Rightarrow> if b = 0 then None else Some (a, b)))"

definition locationPrompt :: "sdk \<Rightarrow> real option \<Rightarrow> real option \<Rightarrow> string" where
  "locationPrompt env lat lng =
     (case lat_and_lng lat lng of
        Some (a, b) \<Rightarrow>
          ''Near my current location (Lat: '' @ Number_toString env a
            @ '', Lng: '' @ Number_toString env b @ '')''
      | None \<Rightarrow> ''In major US metropolitan areas'')"

definition resources_request :: "sdk \<Rightarrow> real option \<Rightarrow> real option \<Rightarrow> GenerateContentParameters" where
  "resources_request env lat lng =
     \<lparr>model = ''gemini-2.5-flash'',
      contents =
        ''Find 5 highly-rated community safety centers, trauma support groups, or victim advocate offices ''
        @ locationPrompt env lat lng
        @ ''. Provide their details and why they are important for public safety.'',
      tools = [googleMaps],
      temperature = None,
      toolConfig =
        Some (case lat_and_lng lat lng of
                Some (a, b) \<Rightarrow> Some \<lparr>latitude = a, longitude = b\<rparr>
              | None \<Rightarrow> None)\<rparr>"

definition resources_fallback :: GroundedResponse where
  "resources_fallback = \<lparr>text = ''Error finding local resources.'', sources = []\<rparr>"

definition resources_body :: "sdk \<Rightarrow> real option \<Rightarrow> real option \<Rightarrow> GroundedResponse js" where
  "resources_body env lat lng w =
     (case getAI env of
        Inl error \<Rightarrow> (Inl error, w)
      | Inr ai \<Rightarrow>
          (let request = resources_request env lat lng;
               w1 = w\<lparr>requests := requests w @ [request]\<rparr>
           in case generateContent env request of
                Inl error \<Rightarrow> (Inl error, w1)
              | Inr response \<Rightarrow>
                  (Inr \<lparr>text = or_else (response_text response) ''No resources found.'',
                        sources = grounding_sources response\<rparr>, w1)))"

definition findLocalSafetyResources ::
  "sdk \<Rightarrow> real option \<Rightarrow> real option \<Rightarrow> GroundedResponse js" where
  "findLocalSafetyResources env lat lng =
     try_catch (resources_body env lat lng)
       (\<lambda>error w. (Inr resources_fallback, w\<lparr>console := console w @ [''Maps Grounding Error:'']\<rparr>))"

subsection \<open>The chat session: \<^verbatim>\<open>currentChat\<close>, \<^verbatim>\<open>startProChat\<close>, \<^verbatim>\<open>sendChatMessage\<close>\<close>

definition SYSTEM_INSTRUCTION :: string where
  "SYSTEM_INSTRUCTION =
     ''You are the GVA Data Architect, an elite AI expert in public safety, criminology, and data science. '' @ nl
     @ ''      You have access to a 10-year dataset of gun violence metrics and a sample of recent incidents.'' @ nl
     @ ''      Your goal is to provide deep, evidence-based, and compassionate analysis. '' @ nl
     @ ''      When asked about data methodology, explain the scraping process (Selenium/BeautifulSoup) and the importance of data normalization.'' @ nl
     @ ''      Always maintain a professional and analytical tone.''"

text \<open>
  The session object \<^verbatim>\<open>chats.create\<close> returns for the configuration of the source: the
  model, the system instruction, and no history (the source passes none).
\<close>

definition new_chat :: Chat where
  "new_chat =
     \<lparr>chat_model = ''gemini-3-pro-preview'', systemInstruction = SYSTEM_INSTRUCTION,
      history = []\<rparr>"

text \<open>
  \<^verbatim>\<open>startProChat\<close> has no \<^verbatim>\<open>try\<close>: what the constructor or \<^verbatim>\<open>chats.create\<close> throws
  leaves it, before the assignment to \<^verbatim>\<open>currentChat\<close>.
\<close>

definition startProChat :: "sdk \<Rightarrow> nat js" where
  "startProChat env w =
     (case getAI env of
        Inl error \<Rightarrow> (Inl error, w)
      | Inr ai \<Rightarrow>
          (case chats_create env of
             Some error \<Rightarrow> (Inl error, w)
           | None \<Rightarrow>
               (let ref = length (heap w)
                in (Inr ref, w\<lparr>heap := heap w @ [new_chat], currentChat := Some ref\<rparr>))))"

definition CHAT_FALLBACK :: string where
  "CHAT_FALLBACK = ''The AI Expert is currently unavailable. Please check your configuration.''"

text \<open>
  The body of the \<^verbatim>\<open>try\<close> in \<^verbatim>\<open>sendChatMessage\<close>. Calling a method of \<^verbatim>\<open>null\<close> (or
  of a reference to nothing) is a TypeError.
\<close>

definition send_body :: "sdk \<Rightarrow> string \<Rightarrow> string js" where
  "send_body env message w =
     (case currentChat w of
        None \<Rightarrow> (Inl (JsError ''TypeError''), w)
      | Some ref \<Rightarrow>
          if ref < length (heap w) then
            (case sendMessage env (heap w ! ref) message of
               (outcome, chat') \<Rightarrow>
                 (let w1 = w\<lparr>heap := (heap w)[ref := chat'],
                             chat_sends := chat_sends w @ [(ref, message)]\<rparr>
                  in case outcome of
                       Inl error \<Rightarrow> (Inl error, w1)
                     | Inr response \<Rightarrow>
                         (Inr (or_else (response_text response)
                                 ''No response received from the model.''), w1)))
          else (Inl (JsError ''TypeError''), w))"

text \<open>
  \<^verbatim>\<open>if (!currentChat) startProChat();\<close> stands before the \<^verbatim>\<open>try\<close>: what it throws
  rejects the promise of \<^verbatim>\<open>sendChatMessage\<close>.
\<close>

definition sendChatMessage :: "sdk \<Rightarrow> string \<Rightarrow> string js" where
  "sendChatMessage env message w =
     (case (if currentChat w = None then startProChat env w else (Inr 0, w)) of
        (Inl error, w0) \<Rightarrow> (Inl error, w0)
      | (Inr _, w0) \<Rightarrow>
          try_catch (send_body env message)
            (\<lambda>error w'. (Inr CHAT_FALLBACK, w'\<lparr>console := console w' @ [''Chat Error:'']\<rparr>))
            w0)"

text \<open>The calls a client of the module can make on the session, and runs of them.\<close>

datatype call = StartProChat | SendChatMessage string

fun exec :: "sdk \<Rightarrow> world \<Rightarrow> call \<Rightarrow> world" where
  "exec env w StartProChat = snd (startProChat env w)"
| "exec env w (SendChatMessage message) = snd (sendChatMessage env message w)"

definition run :: "sdk \<Rightarrow> call list \<Rightarrow> world" where
  "run env calls = foldl (exec env) init_world calls"

text \<open>A session reference, when there is one, points to a session object.\<close>

definition world_ok :: "world \<Rightarrow> bool" where
  "world_ok w = (case currentChat w of None \<Rightarrow> True | Some r \<Rightarrow> r < length (heap w))"

definition creation_succeeds :: "sdk \<Rightarrow> bool" where
  "creation_succeeds env = (getAI env = Inr () \<and> chats_create env = None)"

subsection \<open>Stand-ins for the SDK\<close>

text \<open>
  Environments to run the functions in: \<open>sdk_ok\<close>, where every call answers;
  \<open>sdk_offline\<close>, where every request to the endpoint throws; \<open>sdk_keyless\<close>, with no
  API key, where the constructor takes the empty key and every request is refused; and
  \<open>sdk_no_key\<close>, an SDK that would throw in its constructor for the empty key, kept to
  run the branch of \<^verbatim>\<open>startProChat\<close> that throws (the SDK in use does not do this).
\<close>

definition canned_response :: GenerateContentResponse where
  "canned_response = \<lparr>response_text = Some ''ok'', candidates = None\<rparr>"

definition sdk_ok :: sdk where
  "sdk_ok =
     \<lparr>API_KEY = Some ''key'',
      GoogleGenAI = (\<lambda>apiKey. None),
      generateContent = (\<lambda>request. Inr canned_response),
      chats_create = None,
      sendMessage = (\<lambda>chat message. (Inr canned_response, chat\<lparr>history := history chat @ [message, ''ok'']\<rparr>)),
      JSON_stringify_review = (\<lambda>t. ''{}''),
      JSON_stringify_incidents = (\<lambda>incs. ''[]''),
      Number_toString = (\<lambda>x. ''?'')\<rparr>"

definition sdk_no_key :: sdk where
  "sdk_no_key =
     sdk_ok\<lparr>API_KEY := None,
            GoogleGenAI := (\<lambda>apiKey. if apiKey = [] then Some (JsError ''API key missing'') else None)\<rparr>"

definition sdk_offline :: sdk where
  "sdk_offline =
     sdk_ok\<lparr>generateContent := (\<lambda>request. Inl (JsError ''fetch failed'')),
            sendMessage := (\<lambda>chat message. (Inl (JsError ''fetch failed''), chat))\<rparr>"


section \<open>Chat panel of the UI (App, \<^verbatim>\<open>handleSendMessage\<close>)\<close>

datatype Role = user | assistant

record ChatMessage =
  role :: Role
  content :: string

text \<open>
  The part of the component state the chat uses, and \<open>in_flight\<close>: the messages handed
  to \<^verbatim>\<open>sendChatMessage\<close> whose promise has not settled yet. Every handler runs on the
  current state.
\<close>

record ui =
  userInput :: string
  isTyping :: bool
  chatHistory :: "ChatMessage list"
  in_flight :: "string list"

definition init_ui :: ui where
  "init_ui = \<lparr>userInput = [], isTyping = False, chatHistory = [], in_flight = []\<rparr>"

text \<open>\<^verbatim>\<open>handleSendMessage\<close> up to its \<^verbatim>\<open>await\<close>.\<close>

definition handleSendMessage :: "ui \<Rightarrow> ui" where
  "handleSendMessage s =
     (if trim (userInput s) = [] \<or> isTyping s then s
      else (let currentInput = userInput s
            in s\<lparr>userInput := [],
                 chatHistory := chatHistory s @ [\<lparr>role = user, content = currentInput\<rparr>],
                 isTyping := True,
                 in_flight := in_flight s @ [currentInput]\<rparr>))"

text \<open>The rest of \<^verbatim>\<open>handleSendMessage\<close>, run when the promise resolves to \<open>response\<close>.\<close>

definition handleSendMessage_resumed :: "string \<Rightarrow> ui \<Rightarrow> ui" where
  "handleSendMessage_resumed response s =
     s\<lparr>chatHistory := chatHistory s @ [\<lparr>role = assistant, content = response\<rparr>],
       isTyping := False\<rparr>"

text \<open>
  What can happen to the panel: the user edits the input, the form is submitted, the
  oldest pending promise resolves with a response, or it rejects (then the rest of the
  handler does not run). With nothing pending the last two change nothing.
\<close>

datatype event = Change string | Submit | Resolved string | Rejected

fun step :: "ui \<Rightarrow> event \<Rightarrow> ui" where
  "step s (Change v) = s\<lparr>userInput := v\<rparr>"
| "step s Submit = handleSendMessage s"
| "step s (Resolved response) =
     (case in_flight s of
        [] \<Rightarrow> s
      | _ # pending \<Rightarrow> handleSendMessage_resumed response (s\<lparr>in_flight := pending\<rparr>))"
| "step s Rejected =
     (case in_flight s of
        [] \<Rightarrow> s
      | _ # pending \<Rightarrow> s\<lparr>in_flight := pending\<rparr>)"

definition reached :: "event list \<Rightarrow> ui" where
  "reached events = foldl step init_ui events"

section \<open>Properties of the string primitives\<close>

lemma startsWith_iff_prefix: "startsWith s q \<longleftrightarrow> (\<exists>rest. s = q @ rest)"
  by (induction s q rule: startsWith.induct) auto

lemma includes_iff: "includes_str s q \<longleftrightarrow> (\<exists>before after. s = before @ q @ after)"
proof (induction s)
  case Nil
  then show ?case by auto
next
  case (Cons c cs)
  show ?case
  proof
    assume "includes_str (c # cs) q"
    then consider "startsWith (c # cs) q" | "includes_str cs q" by auto
    then show "\<exists>before after. c # cs = before @ q @ after"
    proof cases
      case 1
      then obtain rest where "c # cs = q @ rest" by (auto simp: startsWith_iff_prefix)
      then have "c # cs = [] @ q @ rest" by simp
      then show ?thesis by blast
    next
      case 2
      with Cons.IH obtain b a where "cs = b @ q @ a" by blast
      then have "c # cs = (c # b) @ q @ a" by simp
      then show ?thesis by blast
    qed
  next
    assume "\<exists>before after. c # cs = before @ q @ after"
    then obtain b a where eq: "c # cs = b @ q @ a" by blast
    show "includes_str (c # cs) q"
    proof (cases b)
      case Nil
      with eq have "c # cs = q @ a" by simp
      then have "startsWith (c # cs) q" unfolding startsWith_iff_prefix by blast
      then show ?thesis by simp
    next
      case (Cons b0 bs)
      with eq have "cs = bs @ q @ a" by simp
      with Cons.IH have "includes_str cs q" by blast
      then show ?thesis by simp
    qed
  qed
qed

lemma includes_empty_query: "includes_str s []"
  by (induction s) auto

lemma split_not_Nil: "split c s \<noteq> []"
  by (induction s) (auto split: list.splits)

lemma split_no_sep: "c \<notin> set s \<Longrightarrow> split c s = [s]"
  by (induction s) (auto split: list.splits)

lemma split_append_sep: "c \<notin> set x \<Longrightarrow> split c (x @ c # rest) = x # split c rest"
  by (induction x) (auto split: list.splits)

lemma split_join:
  "xs \<noteq> [] \<Longrightarrow> \<forall>x\<in>set xs. c \<notin> set x \<Longrightarrow> split c (join [c] xs) = xs"
proof (induction "[c]" xs rule: join.induct)
  case 1
  then show ?case by simp
next
  case (2 x)
  then show ?case by (simp add: split_no_sep)
next
  case (3 x y ys)
  then show ?case by (simp add: split_append_sep)
qed

lemma split_terminated_lines:
  "\<forall>x\<in>set xs. c \<notin> set x \<Longrightarrow> split c (concat (map (\<lambda>x. x @ [c]) xs)) = xs @ [[]]"
  by (induction xs) (auto simp: split_append_sep)

lemma digit_cases: "d < 10 \<Longrightarrow> d \<in> {0, 1, 2, 3, 4, 5, 6, 7, 8, 9::nat}"
  by auto

lemma digit_value_digit_char: "d < 10 \<Longrightarrow> digit_value (digit_char d) = Some d"
  using digit_cases [of d] by (auto simp: digit_value_def digit_char_def)

lemma digit_char_plain: "d < 10 \<Longrightarrow> digit_char d \<noteq> CHR '','' \<and> digit_char d \<noteq> CHR ''\<newline>''"
  using digit_cases [of d] by (auto simp: digit_char_def)

lemma digits_value_append:
  "digits_value acc (s @ t) =
     (case digits_value acc s of None \<Rightarrow> None | Some v \<Rightarrow> digits_value v t)"
  by (induction s arbitrary: acc) (auto split: option.splits)

lemma digits_value_nat_digits: "digits_value 0 (nat_digits n) = Some n"
proof (induction n rule: nat_digits.induct)
  case (1 n)
  show ?case
  proof (cases "n < 10")
    case True
    then show ?thesis
      by (subst nat_digits.simps) (simp add: digit_value_digit_char)
  next
    case False
    with 1 have IH: "digits_value 0 (nat_digits (n div 10)) = Some (n div 10)" by simp
    have "n mod 10 < 10" by simp
    then have dv: "digit_value (digit_char (n mod 10)) = Some (n mod 10)"
      by (rule digit_value_digit_char)
    from False show ?thesis
      by (subst nat_digits.simps) (simp add: digits_value_append IH dv)
  qed
qed

lemma nat_digits_not_Nil: "nat_digits n \<noteq> []"
  by (subst nat_digits.simps) simp

lemma nat_digits_plain: "plain_text (nat_digits n)"
proof (induction n rule: nat_digits.induct)
  case (1 n)
  show ?case
  proof (cases "n < 10")
    case True
    then show ?thesis
      using digit_char_plain [of n]
      by (subst nat_digits.simps) (auto simp: plain_text_def)
  next
    case False
    with 1 have IH: "plain_text (nat_digits (n div 10))" by simp
    have "n mod 10 < 10" by simp
    from digit_char_plain [OF this] IH False show ?thesis
      by (subst nat_digits.simps) (auto simp: plain_text_def)
  qed
qed

section \<open>Lower-casing and containment up to case\<close>

lemma utf8_decode_ascii: "list_all (\<lambda>b. b < 128) bs \<Longrightarrow> utf8_decode bs = Some bs"
  by (induction bs) simp_all

lemma simple_lowercase_ascii: "c < 128 \<Longrightarrow> simple_lowercase c = ascii_lower c"
  by (simp add: simple_lowercase_def lowercase_ranges_def ascii_lower_def) arith

lemma lowercase_from_ascii:
  "list_all (\<lambda>c. c < 128) cs \<Longrightarrow> lowercase_from before cs = map ascii_lower cs"
  by (induction cs arbitrary: before) (simp_all add: simple_lowercase_ascii)

lemma ascii_lower_ascii: "c < 128 \<Longrightarrow> ascii_lower c < 128"
  by (simp add: ascii_lower_def)

lemma utf8_encode_ascii:
  "list_all (\<lambda>c. c < 128) cs \<Longrightarrow> concat (map utf8_encode (map ascii_lower cs)) = map ascii_lower cs"
  by (induction cs) (simp_all add: utf8_encode_def ascii_lower_ascii)

lemma toLowerCase_ascii:
  assumes "ascii_text s"
  shows "toLowerCase s = map (\<lambda>c. char_of (ascii_lower (of_char c))) s"
proof -
  from assms have a: "list_all (\<lambda>b. b < 128) (map of_char s :: nat list)"
    by (simp add: ascii_text_def list_all_iff)
  have "toLowerCase s =
      map char_of (concat (map utf8_encode (lowercase_from [] (map of_char s))))"
    by (simp only: toLowerCase_def utf8_decode_ascii [OF a] option.case)
  also have "\<dots> = map char_of (concat (map utf8_encode (map ascii_lower (map of_char s))))"
    by (simp only: lowercase_from_ascii [OF a])
  also have "\<dots> = map char_of (map ascii_lower (map of_char s))"
    by (simp only: utf8_encode_ascii [OF a])
  also have "\<dots> = map (\<lambda>c. char_of (ascii_lower (of_char c))) s"
    by (simp add: comp_def)
  finally show ?thesis .
qed

lemma ascii_lower_eq_iff:
  assumes "m < 256" and "n < 256"
  shows "char_of (ascii_lower m) = (char_of (ascii_lower n) :: char) \<longleftrightarrow>
         (m = n \<or> (0x41 \<le> m \<and> m \<le> 0x5A \<and> n = m + 32) \<or> (0x41 \<le> n \<and> n \<le> 0x5A \<and> m = n + 32))"
proof -
  have lm: "ascii_lower m < 256" and ln: "ascii_lower n < 256"
    using assms by (auto simp: ascii_lower_def)
  have "char_of (ascii_lower m) = (char_of (ascii_lower n) :: char) \<longleftrightarrow>
        ascii_lower m = ascii_lower n"
    using lm ln by (simp add: char_of_eq_iff take_bit_nat_eq_self)
  also have "\<dots> \<longleftrightarrow> (m = n \<or> (0x41 \<le> m \<and> m \<le> 0x5A \<and> n = m + 32)
                      \<or> (0x41 \<le> n \<and> n \<le> 0x5A \<and> m = n + 32))"
    by (auto simp: ascii_lower_def)
  finally show ?thesis .
qed

lemma lower_char_same_letter:
  "char_of (ascii_lower (of_char c)) = (char_of (ascii_lower (of_char d)) :: char) \<longleftrightarrow> same_letter c d"
proof -
  have c: "(of_char c :: nat) < 256" and d: "(of_char d :: nat) < 256" by simp_all
  show ?thesis
    unfolding ascii_lower_eq_iff [OF c d] same_letter_def is_capital_def by auto
qed

lemma map_eq_list_all2: "map f xs = map f ys \<longleftrightarrow> list_all2 (\<lambda>x y. f x = f y) xs ys"
proof (induction xs arbitrary: ys)
  case Nil
  then show ?case by auto
next
  case (Cons x xs)
  then show ?case by (cases ys) auto
qed

lemma includes_lower_iff:
  "includes_str (map (\<lambda>c. char_of (ascii_lower (of_char c)) :: char) s)
                (map (\<lambda>c. char_of (ascii_lower (of_char c))) q)
   \<longleftrightarrow> contains_ignoring_case s q"
  (is "includes_str (map ?lc s) (map ?lc q) \<longleftrightarrow> _")
proof
  assume "includes_str (map ?lc s) (map ?lc q)"
  then obtain b a where "map ?lc s = b @ map ?lc q @ a" by (auto simp: includes_iff)
  then obtain s1 s2 where s: "s = s1 @ s2" and "map ?lc q @ a = map ?lc s2"
    by (auto simp: map_eq_append_conv)
  then obtain part rest where s2: "s2 = part @ rest" and "map ?lc part = map ?lc q"
    by (auto simp: append_eq_map_conv)
  then have "list_all2 same_letter part q"
    by (simp only: map_eq_list_all2 lower_char_same_letter)
  with s s2 show "contains_ignoring_case s q"
    unfolding contains_ignoring_case_def by blast
next
  assume "contains_ignoring_case s q"
  then obtain before part rest where s: "s = before @ part @ rest"
    and "list_all2 same_letter part q"
    unfolding contains_ignoring_case_def by blast
  then have "map ?lc part = map ?lc q"
    by (simp only: map_eq_list_all2 lower_char_same_letter)
  with s have "map ?lc s = map ?lc before @ map ?lc q @ map ?lc rest" by simp
  then show "includes_str (map ?lc s) (map ?lc q)"
    unfolding includes_iff by blast
qed

lemma includes_toLowerCase_ascii:
  assumes "ascii_text s" and "ascii_text q"
  shows "includes_str (toLowerCase s) (toLowerCase q) \<longleftrightarrow> contains_ignoring_case s q"
  by (simp only: toLowerCase_ascii [OF assms(1)] toLowerCase_ascii [OF assms(2)] includes_lower_iff)

lemma includes_implies_contains:
  assumes "includes_str s q"
  shows "contains_ignoring_case s q"
proof -
  from assms obtain before rest where "s = before @ q @ rest" by (auto simp: includes_iff)
  moreover have "list_all2 same_letter q q"
    by (simp add: list_all2_same same_letter_def)
  ultimately show ?thesis unfolding contains_ignoring_case_def by blast
qed

text \<open>Evaluating the lower-casing: on ASCII text, and on the three texts outside it.\<close>

lemmas lower_ascii_eval = toLowerCase_ascii ascii_text_def ascii_lower_def char_of_def bit_Suc_0_iff

lemmas lower_unicode_eval = toLowerCase_def continuation_def utf8_encode_def simple_lowercase_def
  lowercase_ranges_def case_ignorable_def cased_def in_ranges_def case_ignorable_ranges_def
  cased_ranges_def char_of_def bit_Suc_0_iff

lemma toLowerCase_single_sigma: "toLowerCase GREEK_CAPITAL_SIGMA = [CHR 0xCF, CHR 0x83]"
  by (simp add: GREEK_CAPITAL_SIGMA_def lower_unicode_eval)

lemma toLowerCase_final_sigma:
  "toLowerCase GREEK_ODOS =
     [CHR 0xCE, CHR 0xBF, CHR 0xCE, CHR 0xB4, CHR 0xCE, CHR 0xBF, CHR 0xCF, CHR 0x82]"
  by (simp add: GREEK_ODOS_def lower_unicode_eval)

lemma toLowerCase_kelvin: "toLowerCase KELVIN_SIGN = ''k''"
  by (simp add: KELVIN_SIGN_def lower_unicode_eval)

lemma filtered_kelvin:
  "filteredIncidents MOCK_DATA [] KELVIN_SIGN =
     [\<lparr>date = ''Jan 6, 2025'', state = ''Illinois'', city_county = ''Rockford'',
       address = ''State St'', killed = 0, injured = 2, source_link = ''/incident/123461''\<rparr>,
      \<lparr>date = ''Jan 5, 2025'', state = ''California'', city_county = ''Oakland'',
       address = ''Broadway'', killed = 3, injured = 0, source_link = ''/incident/123462''\<rparr>]"
  by (simp add: filteredIncidents_def MOCK_DATA_def toLowerCase_kelvin lower_ascii_eval)

lemma filtered_TEXAS:
  "filteredIncidents MOCK_DATA ''TEXAS'' [] =
     [\<lparr>date = ''Jan 8, 2025'', state = ''Texas'', city_county = ''Dallas'',
       address = ''Ross Ave'', killed = 0, injured = 4, source_link = ''/incident/123459''\<rparr>,
      \<lparr>date = ''Jan 7, 2025'', state = ''Texas'', city_county = ''Houston'',
       address = ''Main Street'', killed = 2, injured = 0, source_link = ''/incident/123458''\<rparr>]"
  by (simp add: filteredIncidents_def MOCK_DATA_def lower_ascii_eval)

section \<open>The incident filter\<close>

text \<open>
  C1, as the specification states it, fails outside the ASCII range, where lower-casing
  depends on the place of a letter in its word. The state of \<open>greek_incident\<close> is a Greek
  word in capitals that ends with a sigma. It contains the query, a capital sigma, as it
  stands, and so also case-insensitively; the empty city query is contained in every
  city. The filter does not return the record: in the lower-cased state the sigma is
  the final small sigma, in the lower-cased query it is the other small sigma.
\<close>

theorem C1_final_sigma_counterexample:
  "includes_str (state greek_incident) GREEK_CAPITAL_SIGMA
   \<and> contains_ignoring_case (state greek_incident) GREEK_CAPITAL_SIGMA
   \<and> contains_ignoring_case (city_county greek_incident) []
   \<and> filteredIncidents [greek_incident] GREEK_CAPITAL_SIGMA [] = []
   \<and> filteredIncidents [greek_incident] GREEK_CAPITAL_SIGMA [] \<noteq>
       filter (\<lambda>r. contains_ignoring_case (state r) GREEK_CAPITAL_SIGMA
                  \<and> contains_ignoring_case (city_county r) []) [greek_incident]"
proof -
  have verbatim: "includes_str (state greek_incident) GREEK_CAPITAL_SIGMA"
    by (simp add: greek_incident_def GREEK_ODOS_def GREEK_CAPITAL_SIGMA_def)
  then have st: "contains_ignoring_case (state greek_incident) GREEK_CAPITAL_SIGMA"
    by (rule includes_implies_contains)
  have city: "contains_ignoring_case (city_county greek_incident) []"
    by (rule includes_implies_contains) (rule includes_empty_query)
  have result: "filteredIncidents [greek_incident] GREEK_CAPITAL_SIGMA [] = []"
    by (simp add: filteredIncidents_def greek_incident_def toLowerCase_final_sigma
        toLowerCase_single_sigma lower_ascii_eval)
  from verbatim st city result show ?thesis by simp
qed

text \<open>
  C1, amended. For every incident list \<open>L\<close> and every pair of query strings, the filter
  returns exactly the records of \<open>L\<close>, in their order, whose lower-cased \<open>state\<close>
  contains the lower-cased state query and whose lower-cased \<open>city_county\<close> contains the
  lower-cased city query. When the queries and the states and cities of \<open>L\<close> are ASCII
  text, these are the records whose \<open>state\<close> contains the state query and whose
  \<open>city_county\<close> contains the city query, both case-insensitively. The result is a
  subsequence of \<open>L\<close>; empty queries keep every record; the empty list gives the empty
  list. (The function is a HOL function of its three arguments, hence pure.)
\<close>

theorem C1_filteredIncidents_exact:
  "filteredIncidents L stateQuery cityQuery =
     filter (\<lambda>r. includes_str (toLowerCase (state r)) (toLowerCase stateQuery)
                \<and> includes_str (toLowerCase (city_county r)) (toLowerCase cityQuery)) L
   \<and> (ascii_text stateQuery \<and> ascii_text cityQuery
        \<and> list_all (\<lambda>r. ascii_text (state r) \<and> ascii_text (city_county r)) L \<longrightarrow>
      filteredIncidents L stateQuery cityQuery =
        filter (\<lambda>r. contains_ignoring_case (state r) stateQuery
                   \<and> contains_ignoring_case (city_county r) cityQuery) L)
   \<and> subseq (filteredIncidents L stateQuery cityQuery) L
   \<and> filteredIncidents L [] [] = L
   \<and> filteredIncidents [] stateQuery cityQuery = []"
proof -
  have lowered: "filteredIncidents L stateQuery cityQuery =
     filter (\<lambda>r. includes_str (toLowerCase (state r)) (toLowerCase stateQuery)
                \<and> includes_str (toLowerCase (city_county r)) (toLowerCase cityQuery)) L"
    by (simp add: filteredIncidents_def)
  have ascii: "ascii_text stateQuery \<and> ascii_text cityQuery
        \<and> list_all (\<lambda>r. ascii_text (state r) \<and> ascii_text (city_county r)) L \<longrightarrow>
      filteredIncidents L stateQuery cityQuery =
        filter (\<lambda>r. contains_ignoring_case (state r) stateQuery
                   \<and> contains_ignoring_case (city_county r) cityQuery) L"
  proof
    assume a: "ascii_text stateQuery \<and> ascii_text cityQuery
        \<and> list_all (\<lambda>r. ascii_text (state r) \<and> ascii_text (city_county r)) L"
    then have "\<forall>r\<in>set L.
        (includes_str (toLowerCase (state r)) (toLowerCase stateQuery)
           \<longleftrightarrow> contains_ignoring_case (state r) stateQuery)
        \<and> (includes_str (toLowerCase (city_county r)) (toLowerCase cityQuery)
           \<longleftrightarrow> contains_ignoring_case (city_county r) cityQuery)"
      by (simp add: list_all_iff includes_toLowerCase_ascii)
    then show "filteredIncidents L stateQuery cityQuery =
        filter (\<lambda>r. contains_ignoring_case (state r) stateQuery
                   \<and> contains_ignoring_case (city_county r) cityQuery) L"
      unfolding lowered by (intro filter_cong) auto
  qed
  have sub: "subseq (filteredIncidents L stateQuery cityQuery) L"
    by (simp add: filteredIncidents_def)
  have empty_lower: "toLowerCase [] = []"
    by (simp add: toLowerCase_def)
  have all: "filteredIncidents L [] [] = L"
    by (simp add: filteredIncidents_def empty_lower includes_empty_query)
  have none: "filteredIncidents [] stateQuery cityQuery = []"
    by (simp add: filteredIncidents_def)
  from lowered ascii sub all none show ?thesis by blast
qed

theorem C1_filteredIncidents_exact_witness:
  "ascii_text ''TEXAS'' \<and> ascii_text []
   \<and> list_all (\<lambda>r. ascii_text (state r) \<and> ascii_text (city_county r)) MOCK_DATA
   \<and> filter (\<lambda>r. contains_ignoring_case (state r) ''TEXAS''
                \<and> contains_ignoring_case (city_county r) []) MOCK_DATA =
       [\<lparr>date = ''Jan 8, 2025'', state = ''Texas'', city_county = ''Dallas'',
         address = ''Ross Ave'', killed = 0, injured = 4, source_link = ''/incident/123459''\<rparr>,
        \<lparr>date = ''Jan 7, 2025'', state = ''Texas'', city_county = ''Houston'',
         address = ''Main Street'', killed = 2, injured = 0,
         source_link = ''/incident/123458''\<rparr>]"
proof -
  have queries: "ascii_text ''TEXAS''" "ascii_text []"
    by (simp_all add: ascii_text_def)
  have data: "list_all (\<lambda>r. ascii_text (state r) \<and> ascii_text (city_county r)) MOCK_DATA"
    by (simp add: MOCK_DATA_def ascii_text_def)
  from C1_filteredIncidents_exact [of MOCK_DATA "''TEXAS''" "[]"] queries data
  have "filteredIncidents MOCK_DATA ''TEXAS'' [] =
      filter (\<lambda>r. contains_ignoring_case (state r) ''TEXAS''
                 \<and> contains_ignoring_case (city_county r) []) MOCK_DATA"
    by blast
  then have "filter (\<lambda>r. contains_ignoring_case (state r) ''TEXAS''
                 \<and> contains_ignoring_case (city_county r) []) MOCK_DATA =
      filteredIncidents MOCK_DATA ''TEXAS'' []"
    by (rule sym)
  from queries data this [unfolded filtered_TEXAS] show ?thesis by blast
qed

section \<open>The CSV exporters\<close>

lemma summary_rows_fold:
  "foldl (\<lambda>csvContent (cat, vals).
            csvContent @ dq @ cat @ dq @ '','' @ join '','' (map cell_toString vals) @ nl)
         start es
   = start @ concat (map (\<lambda>entry. spec_summary_line entry @ nl) es)"
  by (induction es arbitrary: start) (auto simp: spec_summary_line_def)

lemma summaryCSV_template: "summaryCSV t = spec_summary_template t"
  unfolding summaryCSV_def spec_summary_template_def Let_def summary_rows_fold by simp

lemma incidentRow_line: "join '','' (incidentRow r) = spec_incident_line r"
  by (simp add: incidentRow_def spec_incident_line_def)

lemma join_terminated: "xs \<noteq> [] \<Longrightarrow> join sep xs @ sep = concat (map (\<lambda>x. x @ sep) xs)"
  by (induction sep xs rule: join.induct) auto

lemma incidentsCSV_lines:
  "incidentsCSV incs =
     ''Date,State,City/County,Address,Killed,Injured'' @ nl @ join nl (map spec_incident_line incs)"
  by (simp add: incidentsCSV_def headers_def incidentRow_line comp_def)

lemma incidentsCSV_template:
  "incs \<noteq> [] \<Longrightarrow> incidentsCSV incs @ nl = spec_incident_template incs"
  using join_terminated [of "map spec_incident_line incs" nl]
  by (simp add: incidentsCSV_lines spec_incident_template_def comp_def)

lemma set_join: "set (join sep xs) \<subseteq> set sep \<union> (\<Union>x\<in>set xs. set x)"
  by (induction sep xs rule: join.induct) auto

lemma number_toString_nonneg: "0 \<le> n \<Longrightarrow> number_toString n = nat_digits (nat n)"
  by (simp add: number_toString_def)

lemma parse_year_number_toString: "0 \<le> y \<Longrightarrow> parse_year (number_toString y) = Some y"
  by (simp add: parse_year_def number_toString_nonneg nat_digits_not_Nil digits_value_nat_digits)

lemma parse_cell_toString: "wf_cell v \<Longrightarrow> parse_cell (cell_toString v) = v"
  by (cases v)
     (auto simp: parse_cell_def number_toString_nonneg nat_digits_not_Nil digits_value_nat_digits)

lemma cell_toString_plain: "wf_cell v \<Longrightarrow> plain_text (cell_toString v)"
  by (cases v) (auto simp: number_toString_nonneg nat_digits_plain)

lemma unquote_quoted: "unquote (dq @ s @ dq) = s"
  by (simp add: unquote_def dq_def)

lemma spec_summary_line_join:
  "snd e \<noteq> [] \<Longrightarrow>
     spec_summary_line e = join '','' ((dq @ fst e @ dq) # map cell_toString (snd e))"
  by (cases "snd e") (simp_all add: spec_summary_line_def)

lemma split_summary_line:
  assumes "wf_entry e"
  shows "split (CHR '','') (spec_summary_line e) = (dq @ fst e @ dq) # map cell_toString (snd e)"
proof -
  from assms have ne: "snd e \<noteq> []" and cat: "plain_text (fst e)"
    and cells: "\<forall>v\<in>set (snd e). wf_cell v"
    by (auto simp: wf_entry_def list_all_iff)
  have "\<forall>x\<in>set ((dq @ fst e @ dq) # map cell_toString (snd e)). CHR '','' \<notin> set x"
    using cat cells cell_toString_plain by (auto simp: plain_text_def dq_def)
  then show ?thesis
    using split_join [of "(dq @ fst e @ dq) # map cell_toString (snd e)" "CHR '',''"]
    by (simp add: spec_summary_line_join [OF ne])
qed

lemma parse_summary_line_roundtrip:
  assumes "wf_entry e"
  shows "parse_summary_line ys (spec_summary_line e) = (fst e, zip ys (snd e))"
proof -
  from assms have "\<forall>v\<in>set (snd e). wf_cell v"
    by (auto simp: wf_entry_def list_all_iff)
  then have "map parse_cell (map cell_toString (snd e)) = snd e"
    by (induction "snd e") (auto simp: parse_cell_toString map_idI)
  then show ?thesis
    by (simp add: parse_summary_line_def split_summary_line [OF assms] unquote_quoted)
qed

lemma spec_summary_line_no_newline:
  assumes "wf_entry e"
  shows "CHR ''\<newline>'' \<notin> set (spec_summary_line e)"
proof -
  from assms have cat: "plain_text (fst e)" and cells: "\<forall>v\<in>set (snd e). wf_cell v"
    by (auto simp: wf_entry_def list_all_iff)
  have "CHR ''\<newline>'' \<notin> set (join '','' (map cell_toString (snd e)))"
    using set_join [of "'',''" "map cell_toString (snd e)"] cells cell_toString_plain
    by (auto simp: plain_text_def)
  with cat show ?thesis
    by (simp add: spec_summary_line_def plain_text_def dq_def)
qed

lemma spec_summary_line_not_Nil: "spec_summary_line e \<noteq> []"
  by (simp add: spec_summary_line_def dq_def)

lemma split_header_line:
  assumes "years t \<noteq> []" and "list_all (\<lambda>y. 0 \<le> y) (years t)"
  shows "split (CHR '','') (header_line t) = ''Category'' # map number_toString (years t)"
proof -
  from assms(1) have eq: "header_line t = join '','' (''Category'' # map number_toString (years t))"
    by (cases "years t") (simp_all add: header_line_def)
  have "\<forall>x\<in>set (''Category'' # map number_toString (years t)). CHR '','' \<notin> set x"
    using assms(2) nat_digits_plain
    by (auto simp: list_all_iff number_toString_nonneg plain_text_def)
  then show ?thesis
    using split_join [of "''Category'' # map number_toString (years t)" "CHR '',''"]
    by (simp add: eq)
qed

lemma header_line_no_newline:
  assumes "list_all (\<lambda>y. 0 \<le> y) (years t)"
  shows "CHR ''\<newline>'' \<notin> set (header_line t)"
proof -
  have "CHR ''\<newline>'' \<notin> set (join '','' (map number_toString (years t)))"
    using set_join [of "'',''" "map number_toString (years t)"] assms nat_digits_plain
    by (auto simp: list_all_iff number_toString_nonneg plain_text_def)
  then show ?thesis by (simp add: header_line_def)
qed

lemma template_lines:
  "spec_summary_template t =
     concat (map (\<lambda>x. x @ ''\<newline>'') (header_line t # map spec_summary_line (categories t)))"
  by (simp add: spec_summary_template_def header_line_def nl_def comp_def)

lemma split_template:
  assumes "wf_table t"
  shows "filter (\<lambda>line. line \<noteq> []) (split (CHR ''\<newline>'') (spec_summary_template t))
         = header_line t # map spec_summary_line (categories t)"
proof -
  let ?ls = "header_line t # map spec_summary_line (categories t)"
  from assms have "\<forall>x\<in>set ?ls. CHR ''\<newline>'' \<notin> set x"
    using header_line_no_newline spec_summary_line_no_newline
    by (auto simp: wf_table_def list_all_iff)
  then have "split (CHR ''\<newline>'') (spec_summary_template t) = ?ls @ [[]]"
    unfolding template_lines by (rule split_terminated_lines)
  moreover have "\<forall>x\<in>set ?ls. x \<noteq> []"
    by (auto simp: header_line_def spec_summary_line_not_Nil)
  ultimately show ?thesis by (simp add: filter_id_conv)
qed

lemma summary_roundtrip:
  assumes "wf_table t"
  shows "parse_summary_csv (summaryCSV t) = Some (table_mapping t)"
proof -
  from assms have ys: "years t \<noteq> []" and nonneg: "list_all (\<lambda>y. 0 \<le> y) (years t)"
    and entries: "\<forall>e\<in>set (categories t). wf_entry e"
    by (auto simp: wf_table_def list_all_iff)
  have years_back: "map (the \<circ> parse_year) (map number_toString (years t)) = years t"
    using nonneg by (induction "years t") (auto simp: list_all_iff parse_year_number_toString map_idI)
  have years_ok: "list_all (\<lambda>y. parse_year y \<noteq> None) (map number_toString (years t))"
    using nonneg by (auto simp: list_all_iff parse_year_number_toString)
  have rows: "map (parse_summary_line (years t)) (map spec_summary_line (categories t))
              = table_mapping t"
    using entries by (auto simp: table_mapping_def parse_summary_line_roundtrip case_prod_beta)
  show ?thesis
    by (simp add: parse_summary_csv_def summaryCSV_template split_template [OF assms]
        split_header_line [OF ys nonneg] years_ok years_back rows
        del: map_map not_None_eq)
qed

lemma wf_review: "wf_table GVA_10_YEAR_REVIEW"
  by (simp add: wf_table_def wf_entry_def GVA_10_YEAR_REVIEW_def plain_text_def digit_value_def)

lemma filtered_ohio:
  "filteredIncidents MOCK_DATA ''Ohio'' '''' =
     [\<lparr>date = ''Jan 4, 2025'', state = ''Ohio'', city_county = ''Cleveland'',
       address = ''Euclid Ave'', killed = 0, injured = 1, source_link = ''/incident/123464''\<rparr>]"
  by (simp add: filteredIncidents_def MOCK_DATA_def lower_ascii_eval)

lemma filtered_texas:
  "filteredIncidents MOCK_DATA ''texas'' '''' =
     [\<lparr>date = ''Jan 8, 2025'', state = ''Texas'', city_county = ''Dallas'',
       address = ''Ross Ave'', killed = 0, injured = 4, source_link = ''/incident/123459''\<rparr>,
      \<lparr>date = ''Jan 7, 2025'', state = ''Texas'', city_county = ''Houston'',
       address = ''Main Street'', killed = 2, injured = 0, source_link = ''/incident/123458''\<rparr>]"
  by (simp add: filteredIncidents_def MOCK_DATA_def lower_ascii_eval)

lemma filtered_chicago:
  "filteredIncidents MOCK_DATA ''Illinois'' ''Chicago'' =
     [\<lparr>date = ''Jan 8, 2025'', state = ''Illinois'', city_county = ''Chicago'',
       address = ''1200 Block of S Western Ave'', killed = 1, injured = 3,
       source_link = ''/incident/123456''\<rparr>]"
  by (simp add: filteredIncidents_def MOCK_DATA_def lower_ascii_eval)

lemma small_numbers:
  "number_toString 0 = ''0''" "number_toString 1 = ''1''" "number_toString 2 = ''2''"
  "number_toString 3 = ''3''" "number_toString 4 = ''4''" "number_toString 5 = ''5''"
  by (simp_all add: number_toString_def nat_digits.simps digit_char_def)

lemma pending_line:
  \<open>spec_summary_line (last (categories GVA_10_YEAR_REVIEW)) =
     ''"Suicide by Firearm (CDC)",22018,22938,23854,24432,23941,24292,26328,27038,27310,Pending''\<close>
  by (simp add: spec_summary_line_def GVA_10_YEAR_REVIEW_def number_toString_def nat_digits.simps
        digit_char_def dq_def)

text \<open>
  C2, as the specification states it, fails: the template of the incident export ends
  every record line with a newline, and the text the exporter builds does not end with
  one. With the state filter \<^verbatim>\<open>Ohio\<close> one record is exported; the text produced and the
  text of the template differ in the last character.
\<close>

theorem C2_trailing_newline_counterexample:
  \<open>incidentsCSV (filteredIncidents MOCK_DATA ''Ohio'' '''') =
      ''Date,State,City/County,Address,Killed,Injured\<newline>Jan 4, 2025,"Ohio","Cleveland","Euclid Ave",0,1''
   \<and> spec_incident_template (filteredIncidents MOCK_DATA ''Ohio'' '''') =
      ''Date,State,City/County,Address,Killed,Injured\<newline>Jan 4, 2025,"Ohio","Cleveland","Euclid Ave",0,1\<newline>''
   \<and> map csvContent
        (downloadFilteredIncidentsCSV ''2025-01-09T08:30:00.000Z''
           (filteredIncidents MOCK_DATA ''Ohio'' '''') [])
      \<noteq> [spec_incident_template (filteredIncidents MOCK_DATA ''Ohio'' '''')]\<close>
  by (simp add: filtered_ohio incidentsCSV_lines spec_incident_template_def spec_incident_line_def
      small_numbers dq_def nl_def downloadFilteredIncidentsCSV_def)

text \<open>
  C2, amended. The summary export is exactly the template of the specification for the
  ten-year table: the header \<^verbatim>\<open>Category,2015,...,2024\<close>, then for each category, in
  order, the quoted name and its ten cells, every line ending with a newline; numbers
  are written in decimal and the text \<^verbatim>\<open>Pending\<close> is written as it is. The incident
  export, for a list that is not empty, is the header line and one line
  \<^verbatim>\<open><date>,"<state>","<city>","<address>",<killed>,<injured>\<close> for each record, the
  lines separated by single newlines, with no newline after the last one: it is the
  template of the specification without its final newline. For the empty list no text
  is produced.
\<close>

theorem C2_csv_templates:
  \<open>map csvContent (downloadSummaryCSV []) = [spec_summary_template GVA_10_YEAR_REVIEW]
   \<and> spec_summary_template GVA_10_YEAR_REVIEW =
       header_line GVA_10_YEAR_REVIEW @ nl
         @ concat (map (\<lambda>entry. spec_summary_line entry @ nl) (categories GVA_10_YEAR_REVIEW))
   \<and> header_line GVA_10_YEAR_REVIEW =
       ''Category,2015,2016,2017,2018,2019,2020,2021,2022,2023,2024''
   \<and> spec_summary_line (last (categories GVA_10_YEAR_REVIEW)) =
       ''"Suicide by Firearm (CDC)",22018,22938,23854,24432,23941,24292,26328,27038,27310,Pending''
   \<and> map csvContent (downloadFilteredIncidentsCSV isoNow incs []) =
       (if incs = [] then []
        else [''Date,State,City/County,Address,Killed,Injured'' @ nl
                @ join nl (map spec_incident_line incs)])
   \<and> (incs \<noteq> [] \<longrightarrow> incidentsCSV incs @ nl = spec_incident_template incs)\<close>
proof -
  have summary:
    "map csvContent (downloadSummaryCSV []) = [spec_summary_template GVA_10_YEAR_REVIEW]"
    by (simp add: downloadSummaryCSV_def summaryCSV_template)
  have shape: "spec_summary_template GVA_10_YEAR_REVIEW =
       header_line GVA_10_YEAR_REVIEW @ nl
         @ concat (map (\<lambda>entry. spec_summary_line entry @ nl) (categories GVA_10_YEAR_REVIEW))"
    by (simp add: spec_summary_template_def header_line_def)
  have header: "header_line GVA_10_YEAR_REVIEW =
       ''Category,2015,2016,2017,2018,2019,2020,2021,2022,2023,2024''"
    by (simp add: header_line_def GVA_10_YEAR_REVIEW_def number_toString_def nat_digits.simps
        digit_char_def)
  have incidents: "map csvContent (downloadFilteredIncidentsCSV isoNow incs []) =
       (if incs = [] then []
        else [''Date,State,City/County,Address,Killed,Injured'' @ nl
                @ join nl (map spec_incident_line incs)])"
    by (simp add: downloadFilteredIncidentsCSV_def incidentsCSV_lines)
  have template: "incs \<noteq> [] \<longrightarrow> incidentsCSV incs @ nl = spec_incident_template incs"
    by (simp add: incidentsCSV_template)
  from summary shape header pending_line incidents template show ?thesis by blast
qed

theorem C2_csv_templates_witness:
  \<open>filteredIncidents MOCK_DATA ''texas'' '''' \<noteq> []
   \<and> incidentsCSV (filteredIncidents MOCK_DATA ''texas'' '''') @ nl =
       spec_incident_template (filteredIncidents MOCK_DATA ''texas'' '''')
   \<and> map csvContent
        (downloadFilteredIncidentsCSV ''2025-01-09T08:30:00.000Z''
           (filteredIncidents MOCK_DATA ''texas'' '''') []) =
       [''Date,State,City/County,Address,Killed,Injured\<newline>Jan 8, 2025,"Texas","Dallas","Ross Ave",0,4\<newline>Jan 7, 2025,"Texas","Houston","Main Street",2,0'']\<close>
  using C2_csv_templates
    [of "''2025-01-09T08:30:00.000Z''" "filteredIncidents MOCK_DATA ''texas'' ''''"]
  by (simp add: filtered_texas spec_incident_line_def small_numbers dq_def nl_def)

text \<open>
  C3 fails on the data of the application itself. Every date of \<open>MOCK_DATA\<close> has a comma
  in it, and the exporter writes the date as it is while it wraps the state, the city
  and the address in double quotes. With the filters \<^verbatim>\<open>Illinois\<close> and \<^verbatim>\<open>Chicago\<close> the
  exported record line falls into seven cells at its commas, under a header of six.
\<close>

theorem C3_date_field_not_quoted:
  \<open>CHR '','' \<in> set (date (hd (filteredIncidents MOCK_DATA ''Illinois'' ''Chicago'')))
   \<and> incidentsCSV (filteredIncidents MOCK_DATA ''Illinois'' ''Chicago'') =
       ''Date,State,City/County,Address,Killed,Injured\<newline>Jan 8, 2025,"Illinois","Chicago","1200 Block of S Western Ave",1,3''
   \<and> split (CHR '','')
        (join '','' (incidentRow (hd (filteredIncidents MOCK_DATA ''Illinois'' ''Chicago''))))
       = [''Jan 8'', '' 2025'', ''"Illinois"'', ''"Chicago"'',
          ''"1200 Block of S Western Ave"'', ''1'', ''3'']
   \<and> length headers = 6\<close>
  by (simp add: filtered_chicago incidentsCSV_lines incidentRow_line spec_incident_line_def
      small_numbers dq_def nl_def headers_def)

text \<open>
  C4. Reading the text of the summary export back (lines, the unquoted category, every
  further cell paired with the year at its position in the header) gives exactly the
  mapping of the ten-year table from category to the value of each year; the cell of
  2024 of the last category comes back as the text \<^verbatim>\<open>Pending\<close>.
\<close>

theorem C4_summary_roundtrip:
  "parse_summary_csv (summaryCSV GVA_10_YEAR_REVIEW) = Some (table_mapping GVA_10_YEAR_REVIEW)
   \<and> map_of (table_mapping GVA_10_YEAR_REVIEW) ''Suicide by Firearm (CDC)'' =
       Some [(2015, Num 22018), (2016, Num 22938), (2017, Num 23854), (2018, Num 24432),
             (2019, Num 23941), (2020, Num 24292), (2021, Num 26328), (2022, Num 27038),
             (2023, Num 27310), (2024, Str ''Pending'')]"
  by (simp add: summary_roundtrip [OF wf_review])
     (simp add: table_mapping_def GVA_10_YEAR_REVIEW_def)

text \<open>
  C10. With an empty filtered list the incident export returns at once: nothing is
  added to what the browser has saved, and nothing else is changed. The state filter
  \<^verbatim>\<open>Alaska\<close> is such a case.
\<close>

theorem C10_empty_export_does_nothing:
  "downloadFilteredIncidentsCSV isoNow [] saved = saved
   \<and> filteredIncidents MOCK_DATA ''Alaska'' '''' = []
   \<and> downloadFilteredIncidentsCSV isoNow (filteredIncidents MOCK_DATA ''Alaska'' '''') saved
       = saved"
  by (simp add: downloadFilteredIncidentsCSV_def filteredIncidents_def MOCK_DATA_def
      lower_ascii_eval)

section \<open>The AI gateway\<close>

lemma try_catch_total:
  assumes "\<And>e w'. \<exists>v. fst (handler e w') = Inr v"
  shows "\<exists>v. fst (try_catch body handler w) = Inr v"
  using assms by (auto simp: try_catch_def split: prod.splits sum.splits)

lemma or_else_not_empty: "d \<noteq> [] \<Longrightarrow> or_else s d \<noteq> []"
  by (auto simp: or_else_def split: option.splits)

lemma report_resolves: "\<exists>r. fst (generateEnhancedDataReport env w) = Inr r"
  unfolding generateEnhancedDataReport_def by (rule try_catch_total) simp

lemma report_on_failure:
  assumes "isl (getAI env) \<or> isl (generateContent env (report_request env))"
  shows "fst (generateEnhancedDataReport env w) = Inr report_fallback"
  using assms
  by (auto simp: generateEnhancedDataReport_def try_catch_def report_body_def Let_def isl_def
      split: sum.splits)

lemma report_on_success:
  assumes "getAI env = Inr ()" and "generateContent env (report_request env) = Inr response"
  shows "fst (generateEnhancedDataReport env w) =
           Inr \<lparr>text = or_else (response_text response) ''No analysis available.'',
                sources = grounding_sources response\<rparr>"
  using assms
  by (simp add: generateEnhancedDataReport_def try_catch_def report_body_def Let_def)

text \<open>
  C5. \<^verbatim>\<open>generateEnhancedDataReport\<close> always resolves, whatever the constructor and the
  endpoint do. When the constructor or the request throws, it resolves to the fallback
  with the text \<^verbatim>\<open>Error generating report. Please check your API key and connection.\<close>
  and no sources. When both succeed, it resolves to the text of the response, or to
  \<^verbatim>\<open>No analysis available.\<close> when that is missing or empty (so the text is never
  empty), with the grounding chunks of the first candidate, or none, as sources.
\<close>

theorem C5_report_never_throws:
  "(\<exists>r. fst (generateEnhancedDataReport env w) = Inr r)
   \<and> (isl (getAI env) \<or> isl (generateContent env (report_request env)) \<longrightarrow>
        fst (generateEnhancedDataReport env w) =
          Inr \<lparr>text = ''Error generating report. Please check your API key and connection.'',
               sources = []\<rparr>)
   \<and> (getAI env = Inr () \<and> generateContent env (report_request env) = Inr response \<longrightarrow>
        fst (generateEnhancedDataReport env w) =
          Inr \<lparr>text = or_else (response_text response) ''No analysis available.'',
               sources = grounding_sources response\<rparr>
        \<and> or_else (response_text response) ''No analysis available.'' \<noteq> [])"
  using report_resolves [of env w] report_on_failure [of env w]
    report_on_success [of env response w]
    or_else_not_empty [of "''No analysis available.''" "response_text response"]
  by (simp add: report_fallback_def)

lemma getAI_ok: "getAI sdk_ok = Inr ()"
  by (simp add: getAI_def sdk_ok_def)

lemma getAI_offline: "getAI sdk_offline = Inr ()"
  by (simp add: getAI_def sdk_offline_def sdk_ok_def)

lemma getAI_no_key: "getAI sdk_no_key = Inl (JsError ''API key missing'')"
  by (simp add: getAI_def sdk_no_key_def sdk_ok_def or_else_def)

theorem C5_report_never_throws_witness:
  "isl (generateContent sdk_offline (report_request sdk_offline))
   \<and> fst (generateEnhancedDataReport sdk_offline init_world) =
       Inr \<lparr>text = ''Error generating report. Please check your API key and connection.'',
            sources = []\<rparr>
   \<and> getAI sdk_ok = Inr ()
   \<and> generateContent sdk_ok (report_request sdk_ok) = Inr canned_response
   \<and> fst (generateEnhancedDataReport sdk_ok init_world) = Inr \<lparr>text = ''ok'', sources = []\<rparr>"
proof -
  have offline: "isl (generateContent sdk_offline (report_request sdk_offline))"
    by (simp add: sdk_offline_def sdk_ok_def)
  have ok: "generateContent sdk_ok (report_request sdk_ok) = Inr canned_response"
    by (simp add: sdk_ok_def)
  from offline ok getAI_ok
    C5_report_never_throws [of sdk_offline init_world]
    C5_report_never_throws [of sdk_ok init_world canned_response]
  show ?thesis
    by (simp add: canned_response_def or_else_def grounding_sources_def)
qed

lemma send_resolves:
  assumes "currentChat w \<noteq> None \<or> creation_succeeds env"
  shows "\<exists>r. fst (sendChatMessage env message w) = Inr r"
proof (cases "currentChat w")
  case None
  with assms have "creation_succeeds env" by simp
  then have "startProChat env w =
      (Inr (length (heap w)), w\<lparr>heap := heap w @ [new_chat], currentChat := Some (length (heap w))\<rparr>)"
    by (simp add: startProChat_def creation_succeeds_def Let_def)
  with None show ?thesis
    using try_catch_total [of "\<lambda>error w'. (Inr CHAT_FALLBACK, w'\<lparr>console := console w' @ [''Chat Error:'']\<rparr>)"
        "send_body env message"]
    by (simp add: sendChatMessage_def)
next
  case (Some r)
  then show ?thesis
    using try_catch_total [of "\<lambda>error w'. (Inr CHAT_FALLBACK, w'\<lparr>console := console w' @ [''Chat Error:'']\<rparr>)"
        "send_body env message"]
    by (simp add: sendChatMessage_def)
qed


lemma resources_resolves: "\<exists>r. fst (findLocalSafetyResources env lat lng w) = Inr r"
  unfolding findLocalSafetyResources_def by (rule try_catch_total) simp

lemma resources_on_failure:
  assumes "isl (getAI env) \<or> isl (generateContent env (resources_request env lat lng))"
  shows "fst (findLocalSafetyResources env lat lng w) = Inr resources_fallback"
  using assms
  by (auto simp: findLocalSafetyResources_def try_catch_def resources_body_def Let_def isl_def
      split: sum.splits)

lemma resources_sends_request:
  assumes "getAI env = Inr ()"
  shows "requests (snd (findLocalSafetyResources env lat lng w)) =
           requests w @ [resources_request env lat lng]"
  using assms
  by (auto simp: findLocalSafetyResources_def try_catch_def resources_body_def Let_def
      split: sum.splits)

lemma resources_request_with_coordinates:
  assumes "a \<noteq> 0" and "b \<noteq> 0"
  shows "toolConfig (resources_request env (Some a) (Some b)) =
           Some (Some \<lparr>latitude = a, longitude = b\<rparr>)"
    and "locationPrompt env (Some a) (Some b) =
           ''Near my current location (Lat: '' @ Number_toString env a
             @ '', Lng: '' @ Number_toString env b @ '')''"
  using assms by (simp_all add: resources_request_def locationPrompt_def lat_and_lng_def)

lemma resources_request_without_coordinates:
  assumes "lat = None \<or> lng = None"
  shows "toolConfig (resources_request env lat lng) = Some None"
    and "locationPrompt env lat lng = ''In major US metropolitan areas''"
  using assms
  by (auto simp: resources_request_def locationPrompt_def lat_and_lng_def split: option.splits)

text \<open>
  C7 fails for a coordinate equal to zero. Called with latitude 51.48 and longitude 0,
  both supplied, \<^verbatim>\<open>findLocalSafetyResources\<close> sends a request whose prompt has the
  phrase \<^verbatim>\<open>In major US metropolitan areas\<close> and whose retrieval configuration is
  undefined: \<^verbatim>\<open>lat && lng\<close> is falsy when either number is zero.
\<close>

theorem C7_zero_coordinate_dropped:
  "lat_and_lng (Some (5148 / 100)) (Some 0) = None
   \<and> requests (snd (findLocalSafetyResources sdk_ok (Some (5148 / 100)) (Some 0) init_world)) =
       [\<lparr>model = ''gemini-2.5-flash'',
         contents = ''Find 5 highly-rated community safety centers, trauma support groups, or victim advocate offices In major US metropolitan areas. Provide their details and why they are important for public safety.'',
         tools = [googleMaps],
         temperature = None,
         toolConfig = Some None\<rparr>]"
  by (simp add: resources_sends_request [OF getAI_ok] resources_request_def locationPrompt_def
      lat_and_lng_def init_world_def)

section \<open>The chat session\<close>

lemma startProChat_success:
  assumes "creation_succeeds env"
  shows "startProChat env w =
    (Inr (length (heap w)), w\<lparr>heap := heap w @ [new_chat], currentChat := Some (length (heap w))\<rparr>)"
  using assms by (simp add: startProChat_def creation_succeeds_def Let_def)

lemma startProChat_failure:
  assumes "\<not> creation_succeeds env"
  shows "snd (startProChat env w) = w" and "isl (fst (startProChat env w))"
  using assms
  by (auto simp: startProChat_def creation_succeeds_def Let_def split: sum.splits option.splits)

lemma send_body_currentChat: "currentChat (snd (send_body env message w)) = currentChat w"
  by (auto simp: send_body_def Let_def split: option.splits prod.splits sum.splits)

lemma send_body_heap_length: "length (heap (snd (send_body env message w))) = length (heap w)"
  by (auto simp: send_body_def Let_def split: option.splits prod.splits sum.splits)

lemma send_body_chat_sends:
  assumes "currentChat w = Some r" and "r < length (heap w)"
  shows "chat_sends (snd (send_body env message w)) = chat_sends w @ [(r, message)]"
  using assms by (auto simp: send_body_def Let_def split: prod.splits sum.splits)

lemma try_catch_send_currentChat:
  "currentChat (snd (try_catch (send_body env message)
      (\<lambda>error w'. (Inr CHAT_FALLBACK, w'\<lparr>console := console w' @ [''Chat Error:'']\<rparr>)) w))
   = currentChat w"
  using send_body_currentChat [of env message w]
  by (auto simp: try_catch_def split: prod.splits sum.splits)

lemma try_catch_send_heap_length:
  "length (heap (snd (try_catch (send_body env message)
      (\<lambda>error w'. (Inr CHAT_FALLBACK, w'\<lparr>console := console w' @ [''Chat Error:'']\<rparr>)) w)))
   = length (heap w)"
  using send_body_heap_length [of env message w]
  by (auto simp: try_catch_def split: prod.splits sum.splits)

lemma try_catch_send_chat_sends:
  assumes "currentChat w = Some r" and "r < length (heap w)"
  shows "chat_sends (snd (try_catch (send_body env message)
      (\<lambda>error w'. (Inr CHAT_FALLBACK, w'\<lparr>console := console w' @ [''Chat Error:'']\<rparr>)) w))
   = chat_sends w @ [(r, message)]"
  using send_body_chat_sends [OF assms, of env message]
  by (auto simp: try_catch_def split: prod.splits sum.splits)

lemma send_active_currentChat:
  assumes "currentChat w = Some r"
  shows "currentChat (snd (sendChatMessage env message w)) = Some r"
  using assms try_catch_send_currentChat [of env message w]
  by (simp add: sendChatMessage_def)

lemma send_active_chat_sends:
  assumes "currentChat w = Some r" and "r < length (heap w)"
  shows "chat_sends (snd (sendChatMessage env message w)) = chat_sends w @ [(r, message)]"
  using assms try_catch_send_chat_sends [OF assms, of env message]
  by (simp add: sendChatMessage_def)

lemma send_uninitialized:
  assumes "currentChat w = None" and "creation_succeeds env"
  shows "currentChat (snd (sendChatMessage env message w)) = Some (length (heap w))"
    and "chat_sends (snd (sendChatMessage env message w)) =
           chat_sends w @ [(length (heap w), message)]"
proof -
  let ?w0 = "w\<lparr>heap := heap w @ [new_chat], currentChat := Some (length (heap w))\<rparr>"
  have eq: "sendChatMessage env message w =
      try_catch (send_body env message)
        (\<lambda>error w'. (Inr CHAT_FALLBACK, w'\<lparr>console := console w' @ [''Chat Error:'']\<rparr>)) ?w0"
    using assms by (simp add: sendChatMessage_def startProChat_success)
  show "currentChat (snd (sendChatMessage env message w)) = Some (length (heap w))"
    unfolding eq try_catch_send_currentChat by simp
  have "currentChat ?w0 = Some (length (heap w))" and "length (heap w) < length (heap ?w0)"
    by simp_all
  from try_catch_send_chat_sends [OF this, of env message]
  show "chat_sends (snd (sendChatMessage env message w)) =
           chat_sends w @ [(length (heap w), message)]"
    unfolding eq by simp
qed

lemma exec_stays_active:
  assumes "currentChat w \<noteq> None"
  shows "currentChat (exec env w c) \<noteq> None"
proof (cases c)
  case StartProChat
  show ?thesis
  proof (cases "creation_succeeds env")
    case True
    then show ?thesis using StartProChat by (simp add: startProChat_success)
  next
    case False
    then show ?thesis using StartProChat assms by (simp add: startProChat_failure)
  qed
next
  case (SendChatMessage m)
  from assms obtain r where "currentChat w = Some r" by auto
  then show ?thesis using SendChatMessage by (simp add: send_active_currentChat)
qed

lemma exec_activates:
  assumes "creation_succeeds env"
  shows "currentChat (exec env w c) \<noteq> None"
proof (cases c)
  case StartProChat
  then show ?thesis using assms by (simp add: startProChat_success)
next
  case (SendChatMessage m)
  show ?thesis
  proof (cases "currentChat w")
    case None
    then show ?thesis using SendChatMessage assms by (simp add: send_uninitialized)
  next
    case (Some r)
    then show ?thesis using SendChatMessage by (simp add: send_active_currentChat)
  qed
qed

lemma exec_world_ok:
  assumes "world_ok w"
  shows "world_ok (exec env w c)"
proof (cases c)
  case StartProChat
  show ?thesis
  proof (cases "creation_succeeds env")
    case True
    then show ?thesis using StartProChat by (simp add: startProChat_success world_ok_def)
  next
    case False
    then show ?thesis using StartProChat assms by (simp add: startProChat_failure)
  qed
next
  case (SendChatMessage m)
  show ?thesis
  proof (cases "currentChat w")
    case (Some r)
    with assms have "r < length (heap w)" by (simp add: world_ok_def)
    then show ?thesis
      using SendChatMessage Some try_catch_send_heap_length [of env m w]
        try_catch_send_currentChat [of env m w]
      by (simp add: sendChatMessage_def world_ok_def)
  next
    case None
    show ?thesis
    proof (cases "creation_succeeds env")
      case True
      let ?w0 = "w\<lparr>heap := heap w @ [new_chat], currentChat := Some (length (heap w))\<rparr>"
      from True None show ?thesis
        using SendChatMessage try_catch_send_heap_length [of env m ?w0]
          try_catch_send_currentChat [of env m ?w0]
        by (simp add: sendChatMessage_def startProChat_success world_ok_def)
    next
      case False
      from startProChat_failure [OF False, of w]
      have "snd (sendChatMessage env m w) = w"
        using None by (auto simp: sendChatMessage_def isl_def split: prod.splits sum.splits)
      then show ?thesis using SendChatMessage assms by simp
    qed
  qed
qed

lemma run_world_ok: "world_ok (run env calls)"
proof (induction calls rule: rev_induct)
  case Nil
  show ?case by (simp add: run_def world_ok_def init_world_def)
next
  case (snoc c calls)
  then show ?case by (simp add: run_def exec_world_ok)
qed

lemma startProChat_resolves_iff:
  "\<not> isl (fst (startProChat env w)) \<longleftrightarrow> creation_succeeds env"
  using startProChat_failure(2) [of env w] startProChat_success [of env w] by auto

lemma send_creation_failure:
  assumes "currentChat w = None" and "\<not> creation_succeeds env"
  shows "isl (fst (sendChatMessage env message w))"
  using assms startProChat_failure [of env w]
  by (auto simp: sendChatMessage_def isl_def split: prod.splits sum.splits)

text \<open>
  C8. In every state \<open>w\<close> the module can reach by calls of \<^verbatim>\<open>startProChat\<close> and
  \<^verbatim>\<open>sendChatMessage\<close>: there is no session at the start; a call of either function that
  does not throw leaves a session in place; a message sent while session \<open>r\<close> is
  current is sent on \<open>r\<close> and leaves \<open>r\<close> current; only \<^verbatim>\<open>startProChat\<close> changes the
  current session of a state that has one, and when it does not throw it makes a new
  object current, with the fixed system instruction and an empty history, without
  touching the objects that exist and without sending anything (when it throws, the
  state stays as it is); no call takes the session away.
\<close>

theorem C8_chat_session_state_machine:
  assumes reach: "w = run env calls"
  shows "currentChat (run env []) = None
   \<and> (\<not> isl (fst (startProChat env w)) \<longrightarrow> currentChat (exec env w StartProChat) \<noteq> None)
   \<and> (\<not> isl (fst (sendChatMessage env m w)) \<longrightarrow>
        currentChat (exec env w (SendChatMessage m)) \<noteq> None)
   \<and> (currentChat w = Some r \<longrightarrow>
        currentChat (exec env w (SendChatMessage m)) = Some r
        \<and> chat_sends (exec env w (SendChatMessage m)) = chat_sends w @ [(r, m)])
   \<and> (currentChat w \<noteq> None \<and> currentChat (exec env w c) \<noteq> currentChat w \<longrightarrow> c = StartProChat)
   \<and> (\<not> isl (fst (startProChat env w)) \<longrightarrow>
        currentChat (exec env w StartProChat) = Some (length (heap w))
        \<and> currentChat (exec env w StartProChat) \<noteq> currentChat w
        \<and> heap (exec env w StartProChat) = heap w @ [new_chat]
        \<and> systemInstruction new_chat = SYSTEM_INSTRUCTION
        \<and> history new_chat = []
        \<and> chat_sends (exec env w StartProChat) = chat_sends w)
   \<and> (isl (fst (startProChat env w)) \<longrightarrow> exec env w StartProChat = w)
   \<and> (currentChat w \<noteq> None \<longrightarrow> currentChat (exec env w c) \<noteq> None)"
proof -
  have ok: "world_ok w" unfolding reach by (rule run_world_ok)
  have initial: "currentChat (run env []) = None"
    by (simp add: run_def init_world_def)
  have start_activates:
    "\<not> isl (fst (startProChat env w)) \<longrightarrow> currentChat (exec env w StartProChat) \<noteq> None"
    using exec_activates [of env w StartProChat] by (simp add: startProChat_resolves_iff)
  have send_activates: "\<not> isl (fst (sendChatMessage env m w)) \<longrightarrow>
        currentChat (exec env w (SendChatMessage m)) \<noteq> None"
  proof (cases "currentChat w")
    case None
    show ?thesis
    proof (cases "creation_succeeds env")
      case True
      then show ?thesis using exec_activates by blast
    next
      case False
      with None show ?thesis using send_creation_failure by blast
    qed
  next
    case (Some r')
    then show ?thesis by (simp add: send_active_currentChat)
  qed
  have same: "currentChat w = Some r \<longrightarrow>
        currentChat (exec env w (SendChatMessage m)) = Some r
        \<and> chat_sends (exec env w (SendChatMessage m)) = chat_sends w @ [(r, m)]"
  proof
    assume cur: "currentChat w = Some r"
    with ok have "r < length (heap w)" by (simp add: world_ok_def)
    with cur show "currentChat (exec env w (SendChatMessage m)) = Some r
        \<and> chat_sends (exec env w (SendChatMessage m)) = chat_sends w @ [(r, m)]"
      by (simp add: send_active_currentChat send_active_chat_sends)
  qed
  have only_start:
    "currentChat w \<noteq> None \<and> currentChat (exec env w c) \<noteq> currentChat w \<longrightarrow> c = StartProChat"
  proof (cases c)
    case StartProChat
    then show ?thesis by simp
  next
    case (SendChatMessage msg)
    show ?thesis
    proof (cases "currentChat w")
      case None
      then show ?thesis by simp
    next
      case (Some r')
      then show ?thesis using SendChatMessage by (simp add: send_active_currentChat)
    qed
  qed
  have fresh: "\<not> isl (fst (startProChat env w)) \<longrightarrow>
        currentChat (exec env w StartProChat) = Some (length (heap w))
        \<and> currentChat (exec env w StartProChat) \<noteq> currentChat w
        \<and> heap (exec env w StartProChat) = heap w @ [new_chat]
        \<and> systemInstruction new_chat = SYSTEM_INSTRUCTION
        \<and> history new_chat = []
        \<and> chat_sends (exec env w StartProChat) = chat_sends w"
    unfolding startProChat_resolves_iff
    using ok by (auto simp: startProChat_success world_ok_def new_chat_def split: option.splits)
  have thrown: "isl (fst (startProChat env w)) \<longrightarrow> exec env w StartProChat = w"
    using startProChat_resolves_iff [of env w] startProChat_failure(1) [of env w] by auto
  have stays: "currentChat w \<noteq> None \<longrightarrow> currentChat (exec env w c) \<noteq> None"
    using exec_stays_active by blast
  from initial start_activates send_activates same only_start fresh thrown stays
  show ?thesis by blast
qed

lemma creation_succeeds_ok: "creation_succeeds sdk_ok"
  by (simp add: creation_succeeds_def getAI_ok) (simp add: sdk_ok_def)

lemma run_snoc: "run env (calls @ [c]) = exec env (run env calls) c"
  by (simp add: run_def)

theorem C8_chat_session_state_machine_witness:
  "currentChat (run sdk_ok []) = None
   \<and> \<not> isl (fst (sendChatMessage sdk_ok ''hello'' (run sdk_ok [])))
   \<and> currentChat (run sdk_ok [SendChatMessage ''hello'']) = Some 0
   \<and> currentChat (run sdk_ok [SendChatMessage ''hello'', SendChatMessage ''more'']) = Some 0
   \<and> chat_sends (run sdk_ok [SendChatMessage ''hello'', SendChatMessage ''more''])
       = [(0, ''hello''), (0, ''more'')]
   \<and> \<not> isl (fst (startProChat sdk_ok (run sdk_ok [SendChatMessage ''hello''])))
   \<and> currentChat (run sdk_ok [SendChatMessage ''hello'', StartProChat]) = Some 1
   \<and> heap (run sdk_ok [SendChatMessage ''hello'', StartProChat])
       = heap (run sdk_ok [SendChatMessage ''hello'']) @ [new_chat]
   \<and> isl (fst (startProChat sdk_no_key (run sdk_no_key [])))
   \<and> run sdk_no_key [StartProChat] = run sdk_no_key []"
proof -
  let ?w1 = "run sdk_ok [SendChatMessage ''hello'']"
  have w0: "currentChat (run sdk_ok []) = None" "heap (run sdk_ok []) = []"
    "chat_sends (run sdk_ok []) = []"
    by (simp_all add: run_def init_world_def)
  have resolves: "\<not> isl (fst (sendChatMessage sdk_ok ''hello'' (run sdk_ok [])))"
    using send_resolves [of "run sdk_ok []" sdk_ok "''hello''"] creation_succeeds_ok by auto
  have first: "currentChat ?w1 = Some 0" "chat_sends ?w1 = [(0, ''hello'')]"
    using send_uninitialized [OF w0(1) creation_succeeds_ok, of "''hello''"]
      run_snoc [of sdk_ok "[]" "SendChatMessage ''hello''"] w0
    by simp_all
  have len: "length (heap ?w1) = 1"
    using run_snoc [of sdk_ok "[]" "SendChatMessage ''hello''"] w0
      try_catch_send_heap_length [of sdk_ok "''hello''"
        "(run sdk_ok [])\<lparr>heap := heap (run sdk_ok []) @ [new_chat], currentChat := Some 0\<rparr>"]
    by (simp add: sendChatMessage_def startProChat_success [OF creation_succeeds_ok])
  have no_key: "isl (fst (startProChat sdk_no_key (run sdk_no_key [])))"
    by (simp add: startProChat_def getAI_no_key)
  from C8_chat_session_state_machine [of ?w1 sdk_ok "[SendChatMessage ''hello'']" "''more''" 0]
    C8_chat_session_state_machine [of "run sdk_no_key []" sdk_no_key "[]"]
    creation_succeeds_ok startProChat_resolves_iff [of sdk_ok ?w1] resolves no_key first len w0
    run_snoc [of sdk_ok "[SendChatMessage ''hello'']" "SendChatMessage ''more''"]
    run_snoc [of sdk_ok "[SendChatMessage ''hello'']" StartProChat]
    run_snoc [of sdk_no_key "[]" StartProChat]
  show ?thesis by simp
qed






section \<open>The chat panel\<close>

lemma trim_white: "list_all isWhiteSpace s \<Longrightarrow> trim s = []"
proof -
  assume "list_all isWhiteSpace s"
  then have "dropWhile isWhiteSpace s = []"
    by (simp add: dropWhile_eq_Nil_conv list_all_iff)
  then show ?thesis by (simp only: trim_def rev.simps dropWhile.simps)
qed

lemma step_invariant:
  assumes "length (in_flight s) \<le> 1" and "in_flight s \<noteq> [] \<longrightarrow> isTyping s"
  shows "length (in_flight (step s e)) \<le> 1 \<and> (in_flight (step s e) \<noteq> [] \<longrightarrow> isTyping (step s e))"
proof (cases e)
  case (Change v)
  with assms show ?thesis by simp
next
  case Submit
  with assms show ?thesis
    by (cases "in_flight s") (auto simp: handleSendMessage_def Let_def)
next
  case (Resolved response)
  with assms show ?thesis
    by (cases "in_flight s") (auto simp: handleSendMessage_resumed_def)
next
  case Rejected
  with assms show ?thesis by (cases "in_flight s") auto
qed

lemma reached_invariant:
  "length (in_flight (reached events)) \<le> 1
   \<and> (in_flight (reached events) \<noteq> [] \<longrightarrow> isTyping (reached events))"
proof (induction events rule: rev_induct)
  case Nil
  show ?case by (simp add: reached_def init_ui_def)
next
  case (snoc e events)
  then show ?case using step_invariant [of "reached events" e] by (simp add: reached_def)
qed

text \<open>
  C9. In every state the chat panel can reach, at most one chat request is pending, and
  while one is pending \<open>isTyping\<close> is set and a submit changes nothing. In any state, a
  submit while \<open>isTyping\<close> is set, or with an input of white space only (the empty input
  too), changes nothing: no request is issued.
\<close>

theorem C9_one_chat_request_in_flight:
  "length (in_flight (reached events)) \<le> 1
   \<and> (in_flight (reached events) \<noteq> [] \<longrightarrow>
        isTyping (reached events) \<and> step (reached events) Submit = reached events)
   \<and> (isTyping s \<longrightarrow> handleSendMessage s = s)
   \<and> (list_all isWhiteSpace (userInput s) \<longrightarrow> handleSendMessage s = s)"
  using reached_invariant [of events] trim_white [of "userInput s"]
  by (auto simp: handleSendMessage_def)

theorem C9_one_chat_request_in_flight_witness:
  "in_flight (reached [Change ''hi'', Submit]) = [''hi'']
   \<and> isTyping (reached [Change ''hi'', Submit])
   \<and> reached [Change ''hi'', Submit, Change ''again'', Submit] =
       (reached [Change ''hi'', Submit])\<lparr>userInput := ''again''\<rparr>
   \<and> in_flight (reached [Change ''hi'', Submit, Change ''again'', Submit]) = [''hi'']
   \<and> in_flight (reached [Change ''hi'', Submit, Resolved ''ok'', Change ''again'', Submit])
       = [''again'']
   \<and> list_all isWhiteSpace (userInput (reached [Change ''   '']))
   \<and> handleSendMessage (reached [Change ''   '']) = reached [Change ''   '']"
  using C9_one_chat_request_in_flight
    [of "[Change ''hi'', Submit, Change ''again'']" "reached [Change ''   '']"]
  by (simp add: reached_def init_ui_def handleSendMessage_def handleSendMessage_resumed_def
      trim_def isWhiteSpace_def Let_def)

end
